theory Spec2Isabelle
  imports Complex_Main "HOL-Library.Log_Nat"
begin

section \<open>Data model of geo_to_coco.py\<close>

text \<open>
  Geographic coordinates and affine coefficients are Python floats, that is IEEE 754
  doubles: a finite double is modelled by the real number it denotes, next to the two
  infinities and NaN (the sign of a zero is not kept: no operation below tells the two
  zeros apart). Pixel coordinates are the integers that \<open>int(...)\<close> returns and that
  numpy stores in 64-bit arrays; they are modelled as unbounded integers, which agrees
  with the source as long as the coordinates and the shoelace sums stay below \<open>2^63\<close>
  in absolute value. An area is half an integer and is modelled as a real. Building
  labels are modelled as strings, rings as lists of two-dimensional points.
\<close>

datatype pyfloat = Finite real | PosInf | NegInf | NotANumber

type_synonym point = "pyfloat \<times> pyfloat"

type_synonym pixel = "int \<times> int"

datatype py_error =
    ValueError
  | KeyError
  | IndexError
  | ZeroDivisionError
  | OverflowError
  | AttributeError
  | WKTReadingError

text \<open>rasterio's \<open>Affine\<close>: the six coefficients \<open>a b c d e f\<close>.\<close>

record affine =
  tr_a :: pyfloat
  tr_b :: pyfloat
  tr_c :: pyfloat
  tr_d :: pyfloat
  tr_e :: pyfloat
  tr_f :: pyfloat

text \<open>rasterio's \<open>BoundingBox\<close>.\<close>

record bounding_box =
  bb_left :: pyfloat
  bb_bottom :: pyfloat
  bb_right :: pyfloat
  bb_top :: pyfloat

text \<open>A CRS object, as far as the source looks at it: \<open>to_epsg()\<close> may return \<open>None\<close>.\<close>

datatype crs = CRS (to_epsg: "nat option")

text \<open>
  A shapely geometry. Only a \<open>Polygon\<close> has the attribute \<open>exterior\<close>; its
  constructor holds \<open>list(polygon.exterior.coords)\<close> and the interior rings.
\<close>

datatype geometry =
    Polygon (exterior: "point list") (interiors: "point list list")
  | MultiPolygon "(point list \<times> point list list) list"
  | OtherGeometry

text \<open>
  A cell of the \<open>geometry\<close> column as \<open>pd.read_csv\<close> delivers it: a string, or the
  float NaN of a missing value.
\<close>

datatype cell = WKT string | NaN

record csv_row =
  row_building :: string
  row_geometry :: cell

record csv_table =
  columns :: "string list"
  rows :: "csv_row list"

text \<open>What \<open>rasterio.open\<close> yields for a file that opens.\<close>

record raster =
  src_width :: nat
  src_height :: nat
  src_crs :: "crs option"
  src_transform :: affine
  src_bounds :: bounding_box

record image_info =
  ii_id :: nat
  ii_path :: string
  ii_filename :: string
  ii_width :: nat
  ii_height :: nat
  ii_crs :: "crs option"
  ii_transform :: affine
  ii_bounds :: bounding_box

record coco_image =
  img_id :: nat
  img_width :: nat
  img_height :: nat
  img_file_name :: string
  img_license :: nat

record category_info =
  cat_id :: nat
  cat_name :: string
  cat_supercategory :: string

record annotation =
  ann_id :: nat
  ann_image_id :: nat
  ann_category_id :: nat
  ann_segmentation :: "int list list"
  ann_area :: real
  ann_bbox :: "int list"
  ann_iscrowd :: nat

record mapping_record =
  map_annotation_id :: nat
  map_image_id :: nat
  map_image_filename :: string
  map_polygon_csv_idx :: nat
  map_category_name :: string
  map_category_id :: nat
  map_bbox :: "int list"
  map_area :: real

record valid_polygon =
  vp_building :: string
  vp_coords :: "pixel list"
  vp_original_idx :: nat

text \<open>
  The third-party functions the source calls, taken as parameters:
  \<open>shapely.wkt.loads\<close> (which raises on a string it cannot parse),
  \<open>polygon.intersects\<close> against the polygon with the given shell, the point
  transformation of \<open>Transformer.from_crs("EPSG:4326", crs, always_xy=True)\<close>, and
  whether PIL opens the file at the first path and saves it as a JPEG of the given
  quality at the second.
\<close>

record collaborators =
  loads :: "string \<Rightarrow> py_error + geometry"
  intersects :: "geometry \<Rightarrow> point list \<Rightarrow> bool"
  from_crs :: "crs \<Rightarrow> point \<Rightarrow> point"
  save_as_jpeg :: "string \<Rightarrow> string \<Rightarrow> nat \<Rightarrow> bool"

text \<open>The fields of a \<open>GeoTiffToCoco\<close> object that the pipeline reads and writes.\<close>

record coco_state =
  min_area :: real
  images_info :: "image_info list"
  df :: "(string \<times> geometry) list"
  categories :: "(string \<times> nat) list"
  coco_images :: "coco_image list"
  coco_annotations :: "annotation list"
  coco_categories :: "category_info list"
  annotation_mapping :: "mapping_record list"

definition init :: "real \<Rightarrow> coco_state" where
  "init ma =
     \<lparr>min_area = ma, images_info = [], df = [], categories = [],
      coco_images = [], coco_annotations = [], coco_categories = [],
      annotation_mapping = []\<rparr>"

section \<open>Double arithmetic\<close>

text \<open>
  Rounding a real to the nearest double, ties to the even mantissa. \<open>float_exponent x\<close>
  is the integer \<open>e\<close> with \<open>2^e \<le> |x| < 2^(e+1)\<close>; a double has 53 bits of
  mantissa, so its neighbours in that binade are \<open>2^(e-52)\<close> apart, and \<open>2^(-1074)\<close>
  apart below \<open>2^(-1022)\<close>. A result of magnitude \<open>2^1024\<close> or more is an infinity.
\<close>

definition pow2 :: "int \<Rightarrow> real" where
  "pow2 k = (if 0 \<le> k then 2 ^ nat k else 1 / 2 ^ nat (- k))"

definition round_half_even :: "real \<Rightarrow> int" where
  "round_half_even v =
     (let n = \<lfloor>v\<rfloor>; frac = v - of_int n
      in if frac < 1 / 2 then n
         else if 1 / 2 < frac then n + 1
         else if even n then n else n + 1)"

definition float_exponent :: "real \<Rightarrow> int" where
  "float_exponent x =
     (if 1 \<le> \<bar>x\<bar> then bitlen \<lfloor>\<bar>x\<bar>\<rfloor> - 1 else - bitlen (\<lceil>1 / \<bar>x\<bar>\<rceil> - 1))"

definition to_double :: "real \<Rightarrow> pyfloat" where
  "to_double x =
     (if x = 0 then Finite 0
      else let ulp = pow2 (max (float_exponent x) (- 1022) - 52);
               r = of_int (round_half_even (x / ulp)) * ulp
           in if 2 ^ 1024 \<le> \<bar>r\<bar> then (if x < 0 then NegInf else PosInf) else Finite r)"

text \<open>
  The subtraction and the division of two doubles (IEEE 754, round to nearest). The
  zero-divisor case of \<open>float_div\<close> is never reached: Python raises before dividing.
\<close>

fun float_sub :: "pyfloat \<Rightarrow> pyfloat \<Rightarrow> pyfloat" where
  "float_sub (Finite x) (Finite y) = to_double (x - y)"
| "float_sub NotANumber _ = NotANumber"
| "float_sub _ NotANumber = NotANumber"
| "float_sub PosInf PosInf = NotANumber"
| "float_sub NegInf NegInf = NotANumber"
| "float_sub PosInf _ = PosInf"
| "float_sub NegInf _ = NegInf"
| "float_sub (Finite x) PosInf = NegInf"
| "float_sub (Finite x) NegInf = PosInf"

fun float_div :: "pyfloat \<Rightarrow> pyfloat \<Rightarrow> pyfloat" where
  "float_div (Finite x) (Finite y) =
     (if y = 0
      then (if x = 0 then NotANumber else if 0 < x then PosInf else NegInf)
      else to_double (x / y))"
| "float_div NotANumber _ = NotANumber"
| "float_div _ NotANumber = NotANumber"
| "float_div (Finite x) _ = Finite 0"
| "float_div PosInf (Finite y) = (if 0 \<le> y then PosInf else NegInf)"
| "float_div NegInf (Finite y) = (if 0 \<le> y then NegInf else PosInf)"
| "float_div _ _ = NotANumber"

text \<open>Python's \<open>x / y\<close> on floats: a zero divisor raises before anything is computed.\<close>

definition py_truediv :: "pyfloat \<Rightarrow> pyfloat \<Rightarrow> py_error + pyfloat" where
  "py_truediv x y = (if y = Finite 0 then Inl ZeroDivisionError else Inr (float_div x y))"

text \<open>
  Python's \<open>int(x)\<close> on a float: the fractional part is dropped, towards zero; an
  infinity raises \<open>OverflowError\<close>, NaN raises \<open>ValueError\<close>.
\<close>

fun py_int :: "pyfloat \<Rightarrow> py_error + int" where
  "py_int (Finite x) = Inr (if x < 0 then - \<lfloor>- x\<rfloor> else \<lfloor>x\<rfloor>)"
| "py_int PosInf = Inl OverflowError"
| "py_int NegInf = Inl OverflowError"
| "py_int NotANumber = Inl ValueError"

section \<open>Coordinate projection\<close>

definition setup_coordinate_transformer ::
  "collaborators \<Rightarrow> crs option \<Rightarrow> py_error + (point \<Rightarrow> point) option" where
  "setup_coordinate_transformer env source_crs =
     (case source_crs of
        None \<Rightarrow> Inl AttributeError
      | Some k \<Rightarrow>
          if to_epsg k \<noteq> Some 4326 then Inr (Some (from_crs env k)) else Inr None)"

definition geographic_to_pixel ::
  "pyfloat \<Rightarrow> pyfloat \<Rightarrow> affine \<Rightarrow> (point \<Rightarrow> point) option \<Rightarrow> py_error + pixel" where
  "geographic_to_pixel lon lat transform transformer =
     (let (x, y) = (case transformer of Some t \<Rightarrow> t (lon, lat) | None \<Rightarrow> (lon, lat))
      in case py_truediv (float_sub x (tr_c transform)) (tr_a transform) of
           Inl err \<Rightarrow> Inl err
         | Inr qx \<Rightarrow>
             (case py_int qx of
                Inl err \<Rightarrow> Inl err
              | Inr col \<Rightarrow>
                  (case py_truediv (float_sub y (tr_f transform)) (tr_e transform) of
                     Inl err \<Rightarrow> Inl err
                   | Inr qy \<Rightarrow>
                       (case py_int qy of
                          Inl err \<Rightarrow> Inl err
                        | Inr row \<Rightarrow> Inr (col, row)))))"

fun project_ring ::
  "point list \<Rightarrow> affine \<Rightarrow> (point \<Rightarrow> point) option \<Rightarrow> py_error + pixel list" where
  "project_ring [] transform transformer = Inr []"
| "project_ring ((lon, lat) # rest) transform transformer =
     (case geographic_to_pixel lon lat transform transformer of
        Inl err \<Rightarrow> Inl err
      | Inr p \<Rightarrow>
          (case project_ring rest transform transformer of
             Inl err \<Rightarrow> Inl err
           | Inr ps \<Rightarrow> Inr (p # ps)))"

definition polygon_to_pixel_coords ::
  "geometry \<Rightarrow> affine \<Rightarrow> (point \<Rightarrow> point) option \<Rightarrow> py_error + pixel list" where
  "polygon_to_pixel_coords polygon transform transformer =
     (case polygon of
        Polygon exterior_coords holes \<Rightarrow> project_ring exterior_coords transform transformer
      | _ \<Rightarrow> Inl AttributeError)"

section \<open>Geometry metrics\<close>

text \<open>Python indexing of a sequence: a negative index counts from the end.\<close>

definition py_nth :: "'a list \<Rightarrow> int \<Rightarrow> 'a" where
  "py_nth xs i = (if i < 0 then xs ! nat (int (length xs) + i) else xs ! nat i)"

text \<open>
  \<open>calculate_area\<close>: the sum runs over \<open>range(-1, len(x) - 1)\<close>. Slicing the columns
  of the array built from an empty ring raises \<open>IndexError\<close>.
\<close>

definition shoelace_sum :: "pixel list \<Rightarrow> int" where
  "shoelace_sum coords =
     (let x = map fst coords; y = map snd coords
      in (\<Sum>i\<leftarrow>[-1..int (length x) - 2].
            py_nth x i * py_nth y (i + 1) - py_nth x (i + 1) * py_nth y i))"

definition calculate_area :: "pixel list \<Rightarrow> py_error + real" where
  "calculate_area coords =
     (if coords = [] then Inl IndexError
      else Inr (0.5 * real_of_int \<bar>shoelace_sum coords\<bar>))"

text \<open>\<open>get_bbox_from_coords\<close>: the minimum of an empty array raises \<open>ValueError\<close>.\<close>

definition get_bbox_from_coords :: "pixel list \<Rightarrow> py_error + int list" where
  "get_bbox_from_coords coords =
     (if coords = [] then Inl ValueError
      else let x_min = Min (set (map fst coords)); y_min = Min (set (map snd coords));
               x_max = Max (set (map fst coords)); y_max = Max (set (map snd coords));
               width = x_max - x_min;
               height = y_max - y_min
           in Inr [x_min, y_min, width, height])"

definition get_segmentation_from_coords :: "pixel list \<Rightarrow> int list list" where
  "get_segmentation_from_coords coords = [concat (map (\<lambda>(c, r). [c, r]) coords)]"

section \<open>Spatial filter\<close>

definition polygon_intersects_image :: "collaborators \<Rightarrow> geometry \<Rightarrow> bounding_box \<Rightarrow> bool" where
  "polygon_intersects_image env polygon image_bounds =
     intersects env polygon
       [(bb_left image_bounds, bb_bottom image_bounds),
        (bb_right image_bounds, bb_bottom image_bounds),
        (bb_right image_bounds, bb_top image_bounds),
        (bb_left image_bounds, bb_top image_bounds)]"

text \<open>\<open>np.clip(v, lo, hi)\<close> is \<open>minimum(maximum(v, lo), hi)\<close>.\<close>

definition np_clip :: "int \<Rightarrow> int \<Rightarrow> int \<Rightarrow> int" where
  "np_clip v lo hi = min (max v lo) hi"

text \<open>The two \<open>np.clip\<close> assignments of \<open>filter_valid_polygons_for_image\<close>.\<close>

definition clip_coords :: "nat \<Rightarrow> nat \<Rightarrow> pixel list \<Rightarrow> pixel list" where
  "clip_coords w h coords =
     map (\<lambda>(c, r). (np_clip c 0 (int w), np_clip r 0 (int h))) coords"

text \<open>The fine bounds test: true when the ring is skipped.\<close>

definition outside_image :: "nat \<Rightarrow> nat \<Rightarrow> pixel list \<Rightarrow> bool" where
  "outside_image w h coords =
     (Max (set (map fst coords)) < 0 \<or> Min (set (map fst coords)) > int w \<or>
      Max (set (map snd coords)) < 0 \<or> Min (set (map snd coords)) > int h)"

text \<open>
  The body of the loop of \<open>filter_valid_polygons_for_image\<close> for the row \<open>idx\<close>:
  \<open>Inr None\<close> is \<open>continue\<close> (or the area test failing), \<open>Inr (Some v)\<close> the entry
  appended to \<open>valid_polygons\<close>.
\<close>

definition filter_row ::
  "collaborators \<Rightarrow> real \<Rightarrow> image_info \<Rightarrow> (point \<Rightarrow> point) option \<Rightarrow>
   nat \<times> string \<times> geometry \<Rightarrow> py_error + valid_polygon option" where
  "filter_row env ma info transformer r =
     (case r of (idx, building, polygon) \<Rightarrow>
        if \<not> polygon_intersects_image env polygon (ii_bounds info) then Inr None
        else
          (case polygon_to_pixel_coords polygon (ii_transform info) transformer of
             Inl err \<Rightarrow> Inl err
           | Inr pixel_coords \<Rightarrow>
               if pixel_coords = [] then Inl IndexError
               else if outside_image (ii_width info) (ii_height info) pixel_coords then Inr None
               else
                 let coords_array = clip_coords (ii_width info) (ii_height info) pixel_coords
                 in (case calculate_area coords_array of
                       Inl err \<Rightarrow> Inl err
                     | Inr area \<Rightarrow>
                         if area > ma
                         then Inr (Some \<lparr>vp_building = building, vp_coords = coords_array,
                                         vp_original_idx = idx\<rparr>)
                         else Inr None)))"

fun filter_rows ::
  "collaborators \<Rightarrow> real \<Rightarrow> image_info \<Rightarrow> (point \<Rightarrow> point) option \<Rightarrow>
   (nat \<times> string \<times> geometry) list \<Rightarrow> py_error + valid_polygon list" where
  "filter_rows env ma info transformer [] = Inr []"
| "filter_rows env ma info transformer (r # rest) =
     (case filter_row env ma info transformer r of
        Inl err \<Rightarrow> Inl err
      | Inr v \<Rightarrow>
          (case filter_rows env ma info transformer rest of
             Inl err \<Rightarrow> Inl err
           | Inr vs \<Rightarrow> Inr ((case v of None \<Rightarrow> [] | Some p \<Rightarrow> [p]) @ vs)))"

definition filter_valid_polygons_for_image ::
  "collaborators \<Rightarrow> coco_state \<Rightarrow> image_info \<Rightarrow> py_error + valid_polygon list" where
  "filter_valid_polygons_for_image env st info =
     (case setup_coordinate_transformer env (ii_crs info) of
        Inl err \<Rightarrow> Inl err
      | Inr transformer \<Rightarrow>
          filter_rows env (min_area st) info transformer (enumerate 0 (df st)))"

section \<open>Loading the tiles and the polygon table\<close>

text \<open>\<open>os.path.basename\<close> on a POSIX path.\<close>

definition basename :: "string \<Rightarrow> string" where
  "basename p = rev (takeWhile (\<lambda>ch. ch \<noteq> CHR ''/'') (rev p))"

text \<open>
  \<open>load_images\<close>: the argument is the sorted list of the files found, each with what
  \<open>rasterio.open\<close> does on it (\<open>None\<close> when it raises: the file is reported and
  skipped). The clock value \<open>date_captured\<close> is left out of the image entry.
\<close>

fun load_image_files :: "(nat \<times> string \<times> raster option) list \<Rightarrow> coco_state \<Rightarrow> coco_state" where
  "load_image_files [] st = st"
| "load_image_files ((idx, image_path, opened) # rest) st =
     (case opened of
        None \<Rightarrow> load_image_files rest st
      | Some src \<Rightarrow>
          load_image_files rest
            (st\<lparr>images_info := images_info st @
                   [\<lparr>ii_id = idx + 1, ii_path = image_path, ii_filename = basename image_path,
                     ii_width = src_width src, ii_height = src_height src, ii_crs = src_crs src,
                     ii_transform = src_transform src, ii_bounds = src_bounds src\<rparr>],
                 coco_images := coco_images st @
                   [\<lparr>img_id = idx + 1, img_width = src_width src, img_height = src_height src,
                     img_file_name = basename image_path, img_license = 1\<rparr>]\<rparr>))"

definition load_images :: "(string \<times> raster option) list \<Rightarrow> coco_state \<Rightarrow> coco_state" where
  "load_images image_files st =
     load_image_files (enumerate 0 image_files) (st\<lparr>images_info := []\<rparr>)"

text \<open>
  The first \<open>apply\<close> of \<open>load_csv\<close>: a string cell goes through \<open>loads\<close>, whose
  exception is not caught; any other cell is kept as it is (\<open>None\<close> here).
\<close>

fun apply_loads ::
  "collaborators \<Rightarrow> csv_row list \<Rightarrow> py_error + (string \<times> geometry option) list" where
  "apply_loads env [] = Inr []"
| "apply_loads env (r # rest) =
     (case (case row_geometry r of
              WKT wkt \<Rightarrow> (case loads env wkt of Inl err \<Rightarrow> Inl err | Inr g \<Rightarrow> Inr (Some g))
            | NaN \<Rightarrow> Inr None) of
        Inl err \<Rightarrow> Inl err
      | Inr v \<Rightarrow>
          (case apply_loads env rest of
             Inl err \<Rightarrow> Inl err
           | Inr vs \<Rightarrow> Inr ((row_building r, v) # vs)))"

text \<open>\<open>geom is not None and hasattr(geom, 'exterior')\<close>.\<close>

fun valid_mask :: "geometry option \<Rightarrow> bool" where
  "valid_mask (Some (Polygon ext holes)) = True"
| "valid_mask _ = False"

text \<open>pandas' \<open>unique\<close>: the distinct values in the order of their first appearance.\<close>

fun unique_from :: "'a list \<Rightarrow> 'a list \<Rightarrow> 'a list" where
  "unique_from seen [] = seen"
| "unique_from seen (x # xs) = unique_from (if x \<in> set seen then seen else seen @ [x]) xs"

definition unique :: "'a list \<Rightarrow> 'a list" where
  "unique xs = unique_from [] xs"

definition load_csv :: "collaborators \<Rightarrow> csv_table \<Rightarrow> coco_state \<Rightarrow> py_error + coco_state" where
  "load_csv env table st =
     (if ''building'' \<notin> set (columns table) \<or> ''geometry'' \<notin> set (columns table)
      then Inl ValueError
      else
        (case apply_loads env (rows table) of
           Inl err \<Rightarrow> Inl err
         | Inr parsed \<Rightarrow>
             let new_df = map (\<lambda>(b, v). (b, the v)) (filter (\<lambda>(b, v). valid_mask v) parsed);
                 unique_types = unique (map fst new_df);
                 cats = map (\<lambda>(idx, building_type). (building_type, idx + 1))
                          (enumerate 0 unique_types)
             in Inr (st\<lparr>df := new_df, categories := cats,
                       coco_categories := coco_categories st @
                         map (\<lambda>(cat_name, cid).
                                \<lparr>cat_id = cid, cat_name = cat_name,
                                 cat_supercategory = ''building''\<rparr>) cats\<rparr>)))"

section \<open>Assembling the dataset\<close>

text \<open>
  The inner loop of \<open>create_coco_dataset\<close> over \<open>valid_polygons\<close>, threading the
  object and the counter \<open>annotation_id\<close>. A label missing from \<open>self.categories\<close>
  raises \<open>KeyError\<close>.
\<close>

fun annotate_polygons ::
  "image_info \<Rightarrow> valid_polygon list \<Rightarrow> coco_state \<times> nat \<Rightarrow> py_error + coco_state \<times> nat" where
  "annotate_polygons info [] (st, annotation_id) = Inr (st, annotation_id)"
| "annotate_polygons info (polygon_data # rest) (st, annotation_id) =
     (let coords = vp_coords polygon_data; building_type = vp_building polygon_data
      in case get_bbox_from_coords coords of
           Inl err \<Rightarrow> Inl err
         | Inr bbox \<Rightarrow>
             (case calculate_area coords of
                Inl err \<Rightarrow> Inl err
              | Inr area \<Rightarrow>
                  (case map_of (categories st) building_type of
                     None \<Rightarrow> Inl KeyError
                   | Some cid \<Rightarrow>
                       annotate_polygons info rest
                         (st\<lparr>coco_annotations := coco_annotations st @
                                [\<lparr>ann_id = annotation_id, ann_image_id = ii_id info,
                                  ann_category_id = cid,
                                  ann_segmentation = get_segmentation_from_coords coords,
                                  ann_area = area, ann_bbox = bbox, ann_iscrowd = 0\<rparr>],
                              annotation_mapping := annotation_mapping st @
                                [\<lparr>map_annotation_id = annotation_id, map_image_id = ii_id info,
                                  map_image_filename = ii_filename info,
                                  map_polygon_csv_idx = vp_original_idx polygon_data,
                                  map_category_name = building_type, map_category_id = cid,
                                  map_bbox = bbox, map_area = area\<rparr>]\<rparr>,
                          annotation_id + 1))))"

text \<open>The outer loop over \<open>self.images_info\<close>.\<close>

fun process_images ::
  "collaborators \<Rightarrow> image_info list \<Rightarrow> coco_state \<times> nat \<Rightarrow> py_error + coco_state \<times> nat" where
  "process_images env [] (st, annotation_id) = Inr (st, annotation_id)"
| "process_images env (info # rest) (st, annotation_id) =
     (case filter_valid_polygons_for_image env st info of
        Inl err \<Rightarrow> Inl err
      | Inr valid_polygons \<Rightarrow>
          (case annotate_polygons info valid_polygons (st, annotation_id) of
             Inl err \<Rightarrow> Inl err
           | Inr s \<Rightarrow> process_images env rest s))"

section \<open>Converting the TIFF tiles\<close>

text \<open>\<open>str.lower\<close> on the ASCII letters, \<open>str.endswith\<close>, and \<open>s.rsplit('.', 1)[0]\<close>.\<close>

definition py_lower :: "string \<Rightarrow> string" where
  "py_lower s =
     map (\<lambda>ch. if 65 \<le> (of_char ch :: nat) \<and> (of_char ch :: nat) \<le> 90
               then char_of ((of_char ch :: nat) + 32) else ch) s"

definition endswith :: "string \<Rightarrow> string \<Rightarrow> bool" where
  "endswith s suffix =
     (length suffix \<le> length s \<and> drop (length s - length suffix) s = suffix)"

definition rsplit_dot :: "string \<Rightarrow> string" where
  "rsplit_dot p =
     (if CHR ''.'' \<in> set p then rev (tl (dropWhile (\<lambda>ch. ch \<noteq> CHR ''.'') (rev p))) else p)"

text \<open>\<open>convert_tiff_to_jpg\<close>: any exception of PIL is caught and gives \<open>None\<close>.\<close>

definition convert_tiff_to_jpg :: "collaborators \<Rightarrow> string \<Rightarrow> nat \<Rightarrow> string option" where
  "convert_tiff_to_jpg env tiff_path quality =
     (let jpg_path = rsplit_dot tiff_path @ ''.jpg''
      in if save_as_jpeg env tiff_path jpg_path quality then Some jpg_path else None)"

text \<open>The two inner loops of \<open>convert_all_tiff_to_jpg\<close> over \<open>self.images_info\<close>.\<close>

fun find_full_path :: "image_info list \<Rightarrow> string \<Rightarrow> string option" where
  "find_full_path [] file_name = None"
| "find_full_path (img_info # rest) file_name =
     (if ii_filename img_info = file_name then Some (ii_path img_info)
      else find_full_path rest file_name)"

fun update_images_info :: "image_info list \<Rightarrow> string \<Rightarrow> string \<Rightarrow> string \<Rightarrow> image_info list" where
  "update_images_info [] full_path jpg_path new_filename = []"
| "update_images_info (img_info # rest) full_path jpg_path new_filename =
     (if ii_path img_info = full_path
      then img_info\<lparr>ii_path := jpg_path, ii_filename := new_filename\<rparr> # rest
      else img_info # update_images_info rest full_path jpg_path new_filename)"

text \<open>
  The outer loop over \<open>self.coco_format["images"]\<close>, returning the image entries and
  \<open>self.images_info\<close> as they are at its end. A missing or empty \<open>full_path\<close> and a
  failed conversion leave the entry as it is.
\<close>

fun convert_images ::
  "collaborators \<Rightarrow> nat \<Rightarrow> coco_image list \<Rightarrow> image_info list \<Rightarrow>
   coco_image list \<times> image_info list" where
  "convert_images env quality [] infos = ([], infos)"
| "convert_images env quality (entry # rest) infos =
     (let file_name = img_file_name entry;
          converted =
            (if endswith (py_lower file_name) ''.tif'' \<or> endswith (py_lower file_name) ''.tiff''
             then (case find_full_path infos file_name of
                     None \<Rightarrow> None
                   | Some full_path \<Rightarrow>
                       if full_path = [] then None
                       else (case convert_tiff_to_jpg env full_path quality of
                               None \<Rightarrow> None
                             | Some jpg_path \<Rightarrow> Some (full_path, jpg_path)))
             else None)
      in case converted of
           None \<Rightarrow>
             (case convert_images env quality rest infos of
                (images, infos') \<Rightarrow> (entry # images, infos'))
         | Some (full_path, jpg_path) \<Rightarrow>
             (let new_filename = basename jpg_path
              in case convert_images env quality rest
                        (update_images_info infos full_path jpg_path new_filename) of
                   (images, infos') \<Rightarrow>
                     (entry\<lparr>img_file_name := new_filename\<rparr> # images, infos')))"

text \<open>
  \<open>convert_all_tiff_to_jpg\<close>. The prompt that follows it and the deletion of the
  original files touch the file system only and are left out.
\<close>

definition convert_all_tiff_to_jpg :: "collaborators \<Rightarrow> nat \<Rightarrow> coco_state \<Rightarrow> coco_state" where
  "convert_all_tiff_to_jpg env quality st =
     (case convert_images env quality (coco_images st) (images_info st) of
        (images, infos) \<Rightarrow> st\<lparr>coco_images := images, images_info := infos\<rparr>)"

section \<open>The whole run\<close>

text \<open>
  \<open>create_coco_dataset\<close> up to the returned \<open>self.coco_format\<close>, read off the final
  object: \<open>coco_images\<close>, \<open>coco_annotations\<close>, \<open>coco_categories\<close>. The parameter
  \<open>convert_tiff\<close> is the source's \<open>convert_tiff_to_jpg\<close>. Writing the two JSON
  files and the validation report only read the object; they are left out.
\<close>

definition create_coco_dataset ::
  "collaborators \<Rightarrow> (string \<times> raster option) list \<Rightarrow> csv_table \<Rightarrow> bool \<Rightarrow> nat \<Rightarrow>
   coco_state \<Rightarrow> py_error + coco_state" where
  "create_coco_dataset env image_files table convert_tiff jpg_quality st =
     (case load_csv env table (load_images image_files st) of
        Inl err \<Rightarrow> Inl err
      | Inr loaded \<Rightarrow>
          (case process_images env (images_info loaded) (loaded, 1) of
             Inl err \<Rightarrow> Inl err
           | Inr (assembled, next_id) \<Rightarrow>
               Inr (if convert_tiff then convert_all_tiff_to_jpg env jpg_quality assembled
                    else assembled)))"

section \<open>Predicates used to state the claims\<close>

text \<open>A pixel vertex lies in the closed rectangle \<open>[0, w] \<times> [0, h]\<close>.\<close>

definition in_tile :: "nat \<Rightarrow> nat \<Rightarrow> pixel \<Rightarrow> bool" where
  "in_tile w h p = (0 \<le> fst p \<and> fst p \<le> int w \<and> 0 \<le> snd p \<and> snd p \<le> int h)"

text \<open>What the spatial filter guarantees of an entry of \<open>valid_polygons\<close>.\<close>

definition valid_for :: "real \<Rightarrow> image_info \<Rightarrow> valid_polygon \<Rightarrow> bool" where
  "valid_for ma info vp =
     (vp_coords vp \<noteq> [] \<and> list_all (in_tile (ii_width info) (ii_height info)) (vp_coords vp) \<and>
      (\<exists>ar. calculate_area (vp_coords vp) = Inr ar \<and> ma < ar))"

text \<open>An annotation built by the inner loop for the tile \<open>info\<close>.\<close>

definition annotation_of ::
  "real \<Rightarrow> (string \<times> nat) list \<Rightarrow> image_info \<Rightarrow> annotation \<Rightarrow> bool" where
  "annotation_of ma cats info a =
     (ann_image_id a = ii_id info \<and>
      (\<exists>b. map_of cats b = Some (ann_category_id a)) \<and>
      (\<exists>coords. coords \<noteq> [] \<and> list_all (in_tile (ii_width info) (ii_height info)) coords \<and>
         get_bbox_from_coords coords = Inr (ann_bbox a) \<and>
         calculate_area coords = Inr (ann_area a) \<and>
         ann_segmentation a = get_segmentation_from_coords coords \<and>
         ma < ann_area a))"

text \<open>The assembly loops only append to the annotations and to the mapping.\<close>

definition same_tables :: "coco_state \<Rightarrow> coco_state \<Rightarrow> bool" where
  "same_tables st st' =
     (min_area st' = min_area st \<and> images_info st' = images_info st \<and> df st' = df st \<and>
      categories st' = categories st \<and> coco_images st' = coco_images st \<and>
      coco_categories st' = coco_categories st)"

text \<open>The image entry and the category entry that the loaders append.\<close>

definition coco_of :: "image_info \<Rightarrow> coco_image" where
  "coco_of info =
     \<lparr>img_id = ii_id info, img_width = ii_width info, img_height = ii_height info,
      img_file_name = ii_filename info, img_license = 1\<rparr>"

definition category_of :: "string \<times> nat \<Rightarrow> category_info" where
  "category_of c = \<lparr>cat_id = snd c, cat_name = fst c, cat_supercategory = ''building''\<rparr>"

text \<open>
  The identifier, width and height of a tile and of an image entry: what the TIFF
  conversion leaves as it is.
\<close>

definition tile_key :: "image_info \<Rightarrow> nat \<times> nat \<times> nat" where
  "tile_key info = (ii_id info, ii_width info, ii_height info)"

definition image_key :: "coco_image \<Rightarrow> nat \<times> nat \<times> nat" where
  "image_key im = (img_id im, img_width im, img_height im)"

text \<open>
  A bounding box \<open>[x_min, y_min, w, h]\<close> inside a tile, and a flat ring
  \<open>[x1, y1, x2, y2, ...]\<close> whose pairs all lie inside it.
\<close>

definition bbox_within :: "nat \<Rightarrow> nat \<Rightarrow> int list \<Rightarrow> bool" where
  "bbox_within w h bbox =
     (case bbox of
        [x_min, y_min, bw, bh] \<Rightarrow>
          0 \<le> x_min \<and> 0 \<le> y_min \<and> 0 \<le> bw \<and> 0 \<le> bh \<and>
          x_min + bw \<le> int w \<and> y_min + bh \<le> int h
      | _ \<Rightarrow> False)"

fun ring_within :: "nat \<Rightarrow> nat \<Rightarrow> int list \<Rightarrow> bool" where
  "ring_within w h [] = True"
| "ring_within w h [x] = False"
| "ring_within w h (x # y # rest) =
     (0 \<le> x \<and> x \<le> int w \<and> 0 \<le> y \<and> y \<le> int h \<and> ring_within w h rest)"

definition segmentation_within :: "nat \<Rightarrow> nat \<Rightarrow> int list list \<Rightarrow> bool" where
  "segmentation_within w h seg = (length seg = 1 \<and> list_all (ring_within w h) seg)"

section \<open>An example run: the scenario tile with one house\<close>

text \<open>
  The tile of the scenario (640 by 640, \<open>a = 1\<close>, \<open>e = -1\<close>, \<open>c = 0\<close>, \<open>f = 640\<close>,
  EPSG:4326), the ring of the scenario as shapely holds it (closed), a hole inside it, and
  stand-ins for the third-party functions.
\<close>

definition example_ring :: "point list" where
  "example_ring = [(Finite 10, Finite 630), (Finite 20, Finite 630), (Finite 20, Finite 620),
      (Finite 10, Finite 620), (Finite 10, Finite 630)]"

definition example_hole :: "point list" where
  "example_hole = [(Finite 12, Finite 628), (Finite 18, Finite 628), (Finite 18, Finite 622),
      (Finite 12, Finite 622), (Finite 12, Finite 628)]"

definition example_env :: collaborators where
  "example_env =
     \<lparr>loads = (\<lambda>wkt. if wkt = ''POLYGON ((10 630, 20 630, 20 620, 10 620, 10 630))''
                     then Inr (Polygon example_ring []) else Inl WKTReadingError),
      intersects = (\<lambda>g shell. True),
      from_crs = (\<lambda>k p. p),
      save_as_jpeg = (\<lambda>tiff_path jpg_path quality. True)\<rparr>"

definition example_raster :: raster where
  "example_raster =
     \<lparr>src_width = 640, src_height = 640, src_crs = Some (CRS (Some 4326)),
      src_transform = \<lparr>tr_a = Finite 1, tr_b = Finite 0, tr_c = Finite 0, tr_d = Finite 0,
            tr_e = Finite (- 1), tr_f = Finite 640\<rparr>,
      src_bounds = \<lparr>bb_left = Finite 0, bb_bottom = Finite 0, bb_right = Finite 640,
            bb_top = Finite 640\<rparr>\<rparr>"

definition example_table :: csv_table where
  "example_table =
     \<lparr>columns = [''building'', ''geometry''],
      rows = [\<lparr>row_building = ''house'',
               row_geometry = WKT ''POLYGON ((10 630, 20 630, 20 620, 10 620, 10 630))''\<rparr>]\<rparr>"

definition example_dataset :: coco_state where
  "example_dataset =
     \<lparr>min_area = 10,
      images_info =
        [\<lparr>ii_id = 1, ii_path = ''tiles/t.jpg'', ii_filename = ''t.jpg'', ii_width = 640,
          ii_height = 640, ii_crs = Some (CRS (Some 4326)),
          ii_transform = \<lparr>tr_a = Finite 1, tr_b = Finite 0, tr_c = Finite 0, tr_d = Finite 0,
            tr_e = Finite (- 1), tr_f = Finite 640\<rparr>,
          ii_bounds = \<lparr>bb_left = Finite 0, bb_bottom = Finite 0, bb_right = Finite 640,
            bb_top = Finite 640\<rparr>\<rparr>],
      df = [(''house'', Polygon example_ring [])],
      categories = [(''house'', 1)],
      coco_images =
        [\<lparr>img_id = 1, img_width = 640, img_height = 640, img_file_name = ''t.jpg'',
          img_license = 1\<rparr>],
      coco_annotations =
        [\<lparr>ann_id = 1, ann_image_id = 1, ann_category_id = 1,
          ann_segmentation = [[10, 10, 20, 10, 20, 20, 10, 20, 10, 10]],
          ann_area = 100, ann_bbox = [10, 10, 10, 10], ann_iscrowd = 0\<rparr>],
      coco_categories = [\<lparr>cat_id = 1, cat_name = ''house'', cat_supercategory = ''building''\<rparr>],
      annotation_mapping =
        [\<lparr>map_annotation_id = 1, map_image_id = 1, map_image_filename = ''t.tif'',
          map_polygon_csv_idx = 0, map_category_name = ''house'', map_category_id = 1,
          map_bbox = [10, 10, 10, 10], map_area = 100\<rparr>]\<rparr>"

section \<open>Claims about the coordinate projector\<close>

text \<open>
  C1, as stated: the projector returns \<open>col = floor((x - c) / a)\<close> and
  \<open>row = floor((y - f) / e)\<close>. This fails for a negative quotient that is not
  an integer: for the tile with \<open>a = 1\<close>, \<open>e = -1\<close>, \<open>c = 0\<close>, \<open>f = 640\<close> and the
  point \<open>(-0.5, 640.5)\<close>, both quotients are \<open>-0.5\<close>, in double arithmetic as in
  exact arithmetic; the floor is \<open>-1\<close>, and \<open>int(...)\<close> gives \<open>0\<close>.
\<close>

theorem geographic_to_pixel_floor_counterexample:
  "geographic_to_pixel (Finite (- 1 / 2)) (Finite (1281 / 2))
     \<lparr>tr_a = Finite 1, tr_b = Finite 0, tr_c = Finite 0, tr_d = Finite 0,
      tr_e = Finite (- 1), tr_f = Finite 640\<rparr> None = Inr (0, 0)
   \<and> float_div (float_sub (Finite (- 1 / 2)) (Finite 0)) (Finite 1) = Finite (- 1 / 2)
   \<and> float_div (float_sub (Finite (1281 / 2)) (Finite 640)) (Finite (- 1)) = Finite (- 1 / 2)
   \<and> (\<lfloor>(- 1 / 2 - 0) / (1 :: real)\<rfloor>, \<lfloor>(1281 / 2 - 640) / (- 1 :: real)\<rfloor>) = (- 1, - 1)"
  by (simp add: geographic_to_pixel_def py_truediv_def to_double_def float_exponent_def
      compute_bitlen pow2_def round_half_even_def Let_def)

text \<open>
  C1, amended: when neither scale coefficient is zero, the projector forms the two
  quotients \<open>(x - c) / a\<close> and \<open>(y - f) / e\<close> in double arithmetic, \<open>(x, y)\<close> being the
  point after the optional reprojection. When both quotients are finite it returns
  each rounded towards zero: its floor when the quotient is not negative, its ceiling
  when it is negative. An infinite quotient raises \<open>OverflowError\<close> and a NaN quotient
  raises \<open>ValueError\<close>, the column's before the row's.
\<close>

theorem geographic_to_pixel_truncates:
  assumes "(case transformer of Some t \<Rightarrow> t (lon, lat) | None \<Rightarrow> (lon, lat)) = (x, y)"
    and "tr_a transform \<noteq> Finite 0" and "tr_e transform \<noteq> Finite 0"
    and "qx = float_div (float_sub x (tr_c transform)) (tr_a transform)"
    and "qy = float_div (float_sub y (tr_f transform)) (tr_e transform)"
  shows "geographic_to_pixel lon lat transform transformer =
           (case qx of
              Finite rx \<Rightarrow>
                (case qy of
                   Finite ry \<Rightarrow>
                     Inr (if 0 \<le> rx then \<lfloor>rx\<rfloor> else \<lceil>rx\<rceil>,
                          if 0 \<le> ry then \<lfloor>ry\<rfloor> else \<lceil>ry\<rceil>)
                 | PosInf \<Rightarrow> Inl OverflowError
                 | NegInf \<Rightarrow> Inl OverflowError
                 | NotANumber \<Rightarrow> Inl ValueError)
            | PosInf \<Rightarrow> Inl OverflowError
            | NegInf \<Rightarrow> Inl OverflowError
            | NotANumber \<Rightarrow> Inl ValueError)"
proof -
  have trunc: "py_int (Finite r) = Inr (if 0 \<le> r then \<lfloor>r\<rfloor> else \<lceil>r\<rceil>)" for r
    by (simp add: ceiling_def)
  have dx: "py_truediv (float_sub x (tr_c transform)) (tr_a transform) = Inr qx"
    using assms(2,4) by (simp add: py_truediv_def)
  have dy: "py_truediv (float_sub y (tr_f transform)) (tr_e transform) = Inr qy"
    using assms(3,5) by (simp add: py_truediv_def)
  have run: "geographic_to_pixel lon lat transform transformer =
          (case py_int qx of
             Inl err \<Rightarrow> Inl err
           | Inr col \<Rightarrow> (case py_int qy of Inl err \<Rightarrow> Inl err | Inr row \<Rightarrow> Inr (col, row)))"
    by (simp add: geographic_to_pixel_def assms(1) dx dy cong: sum.case_cong)
  show ?thesis
    unfolding run by (cases qx; cases qy) (simp_all add: trunc del: py_int.simps(1))
qed

theorem geographic_to_pixel_truncates_witness:
  "geographic_to_pixel (Finite (1 / 2)) (Finite 630)
     \<lparr>tr_a = Finite (3602879701896397 / 36028797018963968), tr_b = Finite 0,
      tr_c = Finite 0, tr_d = Finite 0, tr_e = Finite (- 1), tr_f = Finite 640\<rparr>
     None = Inr (5, 10)
   \<and> geographic_to_pixel (Finite 10) (Finite 630)
     \<lparr>tr_a = Finite 1, tr_b = Finite 0, tr_c = Finite 0, tr_d = Finite 0,
      tr_e = Finite (- 1), tr_f = Finite 640\<rparr>
     (Some (\<lambda>p. (PosInf, snd p))) = Inl OverflowError
   \<and> geographic_to_pixel (Finite 10) (Finite 630)
     \<lparr>tr_a = Finite 1, tr_b = Finite 0, tr_c = Finite 0, tr_d = Finite 0,
      tr_e = Finite (- 1), tr_f = Finite 640\<rparr>
     (Some (\<lambda>p. (fst p, NotANumber))) = Inl ValueError"
proof -
  let ?tenth = "\<lparr>tr_a = Finite (3602879701896397 / 36028797018963968), tr_b = Finite 0,
      tr_c = Finite 0, tr_d = Finite 0, tr_e = Finite (- 1), tr_f = Finite 640\<rparr>"
  let ?unit = "\<lparr>tr_a = Finite 1, tr_b = Finite 0, tr_c = Finite 0, tr_d = Finite 0,
      tr_e = Finite (- 1), tr_f = Finite 640\<rparr>"
  have a: "tr_a ?tenth \<noteq> Finite 0" "tr_e ?tenth \<noteq> Finite 0"
    "tr_a ?unit \<noteq> Finite 0" "tr_e ?unit \<noteq> Finite 0"
    by simp_all
  have five: "Finite 5 = float_div (float_sub (Finite (1 / 2)) (tr_c ?tenth)) (tr_a ?tenth)"
    by (simp add: to_double_def float_exponent_def compute_bitlen pow2_def
        round_half_even_def Let_def)
  have ten: "Finite 10 = float_div (float_sub (Finite 630) (tr_f ?tenth)) (tr_e ?tenth)"
    "Finite 10 = float_div (float_sub (Finite 630) (tr_f ?unit)) (tr_e ?unit)"
    "Finite 10 = float_div (float_sub (Finite 10) (tr_c ?unit)) (tr_a ?unit)"
    by (simp_all add: to_double_def float_exponent_def compute_bitlen pow2_def
        round_half_even_def Let_def)
  have inf: "PosInf = float_div (float_sub PosInf (tr_c ?unit)) (tr_a ?unit)"
    and nan: "NotANumber = float_div (float_sub NotANumber (tr_f ?unit)) (tr_e ?unit)"
    by simp_all
  have p1: "(case None of Some t \<Rightarrow> t (Finite (1 / 2), Finite 630)
             | None \<Rightarrow> (Finite (1 / 2), Finite 630)) = (Finite (1 / 2), Finite 630)"
    by simp
  have p2: "(case Some (\<lambda>p. (PosInf, snd p)) of Some t \<Rightarrow> t (Finite 10, Finite 630)
             | None \<Rightarrow> (Finite 10, Finite 630)) = (PosInf, Finite 630)"
    by simp
  have p3: "(case Some (\<lambda>p. (fst p, NotANumber)) of Some t \<Rightarrow> t (Finite 10, Finite 630)
             | None \<Rightarrow> (Finite 10, Finite 630)) = (Finite 10, NotANumber)"
    by simp
  have "geographic_to_pixel (Finite (1 / 2)) (Finite 630) ?tenth None = Inr (5, 10)"
    using geographic_to_pixel_truncates [OF p1 a(1,2) five ten(1)] by simp
  moreover have "geographic_to_pixel (Finite 10) (Finite 630) ?unit
      (Some (\<lambda>p. (PosInf, snd p))) = Inl OverflowError"
    using geographic_to_pixel_truncates [OF p2 a(3,4) inf ten(2)] by simp
  moreover have "geographic_to_pixel (Finite 10) (Finite 630) ?unit
      (Some (\<lambda>p. (fst p, NotANumber))) = Inl ValueError"
    using geographic_to_pixel_truncates [OF p3 a(3,4) ten(3) nan] by simp
  ultimately show ?thesis by (intro conjI)
qed

section \<open>Invariants of the spatial filter and of the assembly loops\<close>

lemma np_clip_range: "0 \<le> np_clip v 0 (int w) \<and> np_clip v 0 (int w) \<le> int w"
  by (simp add: np_clip_def)

lemma clip_coords_in_tile: "list_all (in_tile w h) (clip_coords w h coords)"
  by (induction coords) (auto simp: clip_coords_def in_tile_def np_clip_range)

lemma clip_coords_Nil: "clip_coords w h coords = [] \<longleftrightarrow> coords = []"
  by (simp add: clip_coords_def)

lemma filter_row_valid:
  assumes "filter_row env ma info tr r = Inr (Some vp)"
  shows "valid_for ma info vp"
  using assms
  by (auto simp: filter_row_def valid_for_def clip_coords_in_tile clip_coords_Nil Let_def
      split: prod.splits if_splits sum.splits)

lemma filter_rows_valid:
  "filter_rows env ma info tr rs = Inr vps \<Longrightarrow> list_all (valid_for ma info) vps"
proof (induction rs arbitrary: vps)
  case Nil
  then show ?case by simp
next
  case (Cons r rs)
  then show ?case
    by (auto split: sum.splits option.splits dest: filter_row_valid)
qed

lemma filter_valid_polygons_valid:
  "filter_valid_polygons_for_image env st info = Inr vps \<Longrightarrow>
     list_all (valid_for (min_area st) info) vps"
  by (auto simp: filter_valid_polygons_for_image_def split: sum.splits dest: filter_rows_valid)

lemma same_tables_refl: "same_tables st st"
  by (simp add: same_tables_def)

lemma same_tables_trans: "same_tables a b \<Longrightarrow> same_tables b c \<Longrightarrow> same_tables a c"
  by (simp add: same_tables_def)

lemma annotate_polygons_result:
  "annotate_polygons info vps (st, k) = Inr (st', k') \<Longrightarrow>
   list_all (valid_for ma info) vps \<Longrightarrow>
     same_tables st st' \<and>
     (\<exists>new. coco_annotations st' = coco_annotations st @ new \<and>
            map ann_id new = [k..<k + length new] \<and> k' = k + length new \<and>
            length new = length vps \<and>
            list_all (annotation_of ma (categories st) info) new)"
proof (induction vps arbitrary: st k)
  case Nil
  then show ?case by (simp add: same_tables_def)
next
  case (Cons vp vps)
  from Cons.prems(1) obtain bbox area cid where
    bb: "get_bbox_from_coords (vp_coords vp) = Inr bbox" and
    ar: "calculate_area (vp_coords vp) = Inr area" and
    cat: "map_of (categories st) (vp_building vp) = Some cid"
    by (auto simp: Let_def split: sum.splits option.splits)
  define a where "a = \<lparr>ann_id = k, ann_image_id = ii_id info, ann_category_id = cid,
      ann_segmentation = get_segmentation_from_coords (vp_coords vp),
      ann_area = area, ann_bbox = bbox, ann_iscrowd = 0\<rparr>"
  define m where "m = \<lparr>map_annotation_id = k, map_image_id = ii_id info,
      map_image_filename = ii_filename info, map_polygon_csv_idx = vp_original_idx vp,
      map_category_name = vp_building vp, map_category_id = cid,
      map_bbox = bbox, map_area = area\<rparr>"
  define st1 where "st1 = st\<lparr>coco_annotations := coco_annotations st @ [a],
      annotation_mapping := annotation_mapping st @ [m]\<rparr>"
  have step: "annotate_polygons info vps (st1, k + 1) = Inr (st', k')"
    using Cons.prems(1) bb ar cat by (simp add: Let_def a_def m_def st1_def)
  have vs: "list_all (valid_for ma info) vps" and v: "valid_for ma info vp"
    using Cons.prems(2) by simp_all
  from Cons.IH [OF step vs] obtain new where
    t: "same_tables st1 st'" and
    n: "coco_annotations st' = coco_annotations st1 @ new"
       "map ann_id new = [k + 1..<k + 1 + length new]" "k' = k + 1 + length new"
       "length new = length vps"
       "list_all (annotation_of ma (categories st1) info) new"
    by blast
  have a_ok: "annotation_of ma (categories st) info a"
    using v bb ar cat unfolding annotation_of_def valid_for_def a_def
    by auto
  have "same_tables st st'"
    using t by (simp add: same_tables_def st1_def)
  moreover have "coco_annotations st' = coco_annotations st @ (a # new)"
    using n(1) by (simp add: st1_def)
  moreover have "map ann_id (a # new) = [k..<k + length (a # new)]"
  proof -
    have "k < k + length (a # new)" by simp
    then have "[k..<k + length (a # new)] = k # [Suc k..<k + length (a # new)]"
      by (rule upt_conv_Cons)
    moreover have "k + length (a # new) = k + 1 + length new" by simp
    ultimately have "[k..<k + length (a # new)] = k # [k + 1..<k + 1 + length new]"
      by (simp only: Suc_eq_plus1)
    then show ?thesis using n(2) by (simp add: a_def)
  qed
  moreover have "k' = k + length (a # new)" using n(3) by simp
  moreover have "length (a # new) = length (vp # vps)" using n(4) by simp
  moreover have "list_all (annotation_of ma (categories st) info) (a # new)"
    using a_ok n(5) by (simp add: st1_def)
  ultimately show ?case by blast
qed

lemma process_images_result:
  "process_images env infos (st, k) = Inr (st', k') \<Longrightarrow>
     same_tables st st' \<and>
     (\<exists>new. coco_annotations st' = coco_annotations st @ new \<and>
            map ann_id new = [k..<k + length new] \<and> k' = k + length new \<and>
            list_all (\<lambda>a. \<exists>info \<in> set infos.
                        annotation_of (min_area st) (categories st) info a) new)"
proof (induction infos arbitrary: st k)
  case Nil
  then show ?case by (simp add: same_tables_def)
next
  case (Cons info infos)
  from Cons.prems obtain vps st1 k1 where
    f: "filter_valid_polygons_for_image env st info = Inr vps" and
    a: "annotate_polygons info vps (st, k) = Inr (st1, k1)" and
    p: "process_images env infos (st1, k1) = Inr (st', k')"
    by (auto split: sum.splits)
  from annotate_polygons_result [OF a filter_valid_polygons_valid [OF f]]
  obtain new1 where
    t1: "same_tables st st1" and
    n1: "coco_annotations st1 = coco_annotations st @ new1"
        "map ann_id new1 = [k..<k + length new1]" "k1 = k + length new1"
        "list_all (annotation_of (min_area st) (categories st) info) new1"
    by blast
  from Cons.IH [OF p] obtain new2 where
    t2: "same_tables st1 st'" and
    n2: "coco_annotations st' = coco_annotations st1 @ new2"
        "map ann_id new2 = [k1..<k1 + length new2]" "k' = k1 + length new2"
        "list_all (\<lambda>a. \<exists>i \<in> set infos.
                     annotation_of (min_area st1) (categories st1) i a) new2"
    by blast
  have eq: "min_area st1 = min_area st" "categories st1 = categories st"
    using t1 by (simp_all add: same_tables_def)
  have "same_tables st st'"
    using t1 t2 by (rule same_tables_trans)
  moreover have "coco_annotations st' = coco_annotations st @ (new1 @ new2)"
    using n1(1) n2(1) by simp
  moreover have "map ann_id (new1 @ new2) = [k..<k + length (new1 @ new2)]"
  proof -
    have "[k..<k + length (new1 @ new2)] =
            [k..<k + length new1] @ [k + length new1..<k + length new1 + length new2]"
      using upt_add_eq_append [of k "k + length new1" "length new2"] by (simp add: add.assoc)
    then show ?thesis using n1(2,3) n2(2) by simp
  qed
  moreover have "k' = k + length (new1 @ new2)"
    using n1(3) n2(3) by simp
  moreover have "list_all (\<lambda>a. \<exists>i \<in> set (info # infos).
                     annotation_of (min_area st) (categories st) i a) (new1 @ new2)"
    using n1(4) n2(4) unfolding eq by (auto simp: list_all_iff)
  ultimately show ?case by blast
qed

lemma load_image_files_result:
  "\<exists>new. images_info (load_image_files (enumerate n files) st) = images_info st @ new \<and>
         coco_images (load_image_files (enumerate n files) st) =
           coco_images st @ map coco_of new \<and>
         (\<forall>i \<in> set new. n < ii_id i) \<and> distinct (map ii_id new) \<and>
         min_area (load_image_files (enumerate n files) st) = min_area st \<and>
         coco_annotations (load_image_files (enumerate n files) st) = coco_annotations st \<and>
         coco_categories (load_image_files (enumerate n files) st) = coco_categories st"
proof (induction files arbitrary: n st)
  case Nil
  then show ?case by simp
next
  case (Cons f files)
  obtain image_path opened where f: "f = (image_path, opened)" by (cases f)
  show ?case
  proof (cases opened)
    case None
    from Cons.IH [of "Suc n" st] obtain new where
      n: "images_info (load_image_files (enumerate (Suc n) files) st) = images_info st @ new"
         "coco_images (load_image_files (enumerate (Suc n) files) st) =
            coco_images st @ map coco_of new"
         "\<forall>i \<in> set new. Suc n < ii_id i" "distinct (map ii_id new)"
         "min_area (load_image_files (enumerate (Suc n) files) st) = min_area st"
         "coco_annotations (load_image_files (enumerate (Suc n) files) st) = coco_annotations st"
         "coco_categories (load_image_files (enumerate (Suc n) files) st) = coco_categories st"
      by blast
    have "\<forall>i \<in> set new. n < ii_id i" using n(3) by auto
    then show ?thesis using n f None by auto
  next
    case (Some src)
    define info where "info = \<lparr>ii_id = n + 1, ii_path = image_path,
        ii_filename = basename image_path, ii_width = src_width src,
        ii_height = src_height src, ii_crs = src_crs src,
        ii_transform = src_transform src, ii_bounds = src_bounds src\<rparr>"
    define st1 where "st1 = st\<lparr>images_info := images_info st @ [info],
        coco_images := coco_images st @
          [\<lparr>img_id = n + 1, img_width = src_width src, img_height = src_height src,
            img_file_name = basename image_path, img_license = 1\<rparr>]\<rparr>"
    have step: "load_image_files (enumerate n (f # files)) st =
                  load_image_files (enumerate (Suc n) files) st1"
      using f Some by (simp add: st1_def info_def)
    from Cons.IH [of "Suc n" st1] obtain new where
      n: "images_info (load_image_files (enumerate (Suc n) files) st1) = images_info st1 @ new"
         "coco_images (load_image_files (enumerate (Suc n) files) st1) =
            coco_images st1 @ map coco_of new"
         "\<forall>i \<in> set new. Suc n < ii_id i" "distinct (map ii_id new)"
         "min_area (load_image_files (enumerate (Suc n) files) st1) = min_area st1"
         "coco_annotations (load_image_files (enumerate (Suc n) files) st1) = coco_annotations st1"
         "coco_categories (load_image_files (enumerate (Suc n) files) st1) = coco_categories st1"
      by blast
    have c: "coco_images st1 = coco_images st @ map coco_of [info]"
      by (simp add: st1_def info_def coco_of_def)
    have "images_info (load_image_files (enumerate n (f # files)) st) =
            images_info st @ (info # new)"
      using n(1) step by (simp add: st1_def)
    moreover have "coco_images (load_image_files (enumerate n (f # files)) st) =
            coco_images st @ map coco_of (info # new)"
      using n(2) step c by simp
    moreover have "\<forall>i \<in> set (info # new). n < ii_id i"
      using n(3) by (auto simp: info_def)
    moreover have "distinct (map ii_id (info # new))"
      using n(3,4) by (auto simp: info_def)
    moreover have "min_area (load_image_files (enumerate n (f # files)) st) = min_area st"
         "coco_annotations (load_image_files (enumerate n (f # files)) st) = coco_annotations st"
         "coco_categories (load_image_files (enumerate n (f # files)) st) = coco_categories st"
      using n(5,6,7) step by (simp_all add: st1_def)
    ultimately show ?thesis by blast
  qed
qed

lemma load_images_init:
  "coco_images (load_images files (init ma)) =
     map coco_of (images_info (load_images files (init ma))) \<and>
   distinct (map ii_id (images_info (load_images files (init ma)))) \<and>
   min_area (load_images files (init ma)) = ma \<and>
   coco_annotations (load_images files (init ma)) = [] \<and>
   coco_categories (load_images files (init ma)) = []"
  using load_image_files_result [of 0 files "init ma\<lparr>images_info := []\<rparr>"]
  by (auto simp: load_images_def init_def)

lemma load_csv_result:
  "load_csv env table st = Inr st' \<Longrightarrow>
     min_area st' = min_area st \<and> images_info st' = images_info st \<and>
     coco_images st' = coco_images st \<and> coco_annotations st' = coco_annotations st \<and>
     coco_categories st' = coco_categories st @ map category_of (categories st')"
  by (auto simp: load_csv_def Let_def category_of_def case_prod_unfold
      split: if_splits sum.splits)

lemma annotation_of_key:
  "tile_key i = tile_key j \<Longrightarrow> annotation_of ma cats i a = annotation_of ma cats j a"
  by (simp add: tile_key_def annotation_of_def)

lemma update_images_info_keys:
  "map tile_key (update_images_info infos full_path jpg_path new_filename) = map tile_key infos"
  by (induction infos) (simp_all add: tile_key_def)

lemma convert_images_keys:
  "convert_images env quality images infos = (images', infos') \<Longrightarrow>
     map image_key images' = map image_key images \<and> map tile_key infos' = map tile_key infos"
proof (induction images arbitrary: infos images' infos')
  case Nil
  then show ?case by simp
next
  case (Cons entry rest)
  show ?case
  proof (cases "convert_images env quality (entry # rest) infos =
      (case convert_images env quality rest infos of (ims, infs) \<Rightarrow> (entry # ims, infs))")
    case True
    obtain ims infs where r: "convert_images env quality rest infos = (ims, infs)"
      by (cases "convert_images env quality rest infos")
    from Cons.IH [OF r] True r Cons.prems show ?thesis by auto
  next
    case False
    then obtain full_path jpg_path where
      c: "convert_images env quality (entry # rest) infos =
            (case convert_images env quality rest
                    (update_images_info infos full_path jpg_path (basename jpg_path)) of
               (ims, infs) \<Rightarrow> (entry\<lparr>img_file_name := basename jpg_path\<rparr> # ims, infs))"
      by (auto simp: Let_def split: option.splits if_splits prod.splits)
    obtain ims infs where r: "convert_images env quality rest
        (update_images_info infos full_path jpg_path (basename jpg_path)) = (ims, infs)"
      by (cases "convert_images env quality rest
        (update_images_info infos full_path jpg_path (basename jpg_path))")
    from Cons.IH [OF r] c r Cons.prems show ?thesis
      by (auto simp: update_images_info_keys image_key_def)
  qed
qed

lemma convert_all_tiff_to_jpg_result:
  "map image_key (coco_images (convert_all_tiff_to_jpg env quality st)) =
     map image_key (coco_images st) \<and>
   map tile_key (images_info (convert_all_tiff_to_jpg env quality st)) =
     map tile_key (images_info st) \<and>
   coco_annotations (convert_all_tiff_to_jpg env quality st) = coco_annotations st \<and>
   coco_categories (convert_all_tiff_to_jpg env quality st) = coco_categories st \<and>
   categories (convert_all_tiff_to_jpg env quality st) = categories st"
proof -
  obtain ims infs where r: "convert_images env quality (coco_images st) (images_info st) = (ims, infs)"
    by (cases "convert_images env quality (coco_images st) (images_info st)")
  from convert_images_keys [OF r] r show ?thesis
    by (simp add: convert_all_tiff_to_jpg_def)
qed

lemma assembled_result:
  assumes "load_csv env table (load_images files (init ma)) = Inr loaded"
    and "process_images env (images_info loaded) (loaded, 1) = Inr (st, k)"
  shows "map image_key (coco_images st) = map tile_key (images_info st)"
    and "distinct (map ii_id (images_info st))"
    and "coco_categories st = map category_of (categories st)"
    and "map ann_id (coco_annotations st) = [1..<1 + length (coco_annotations st)]"
    and "list_all (\<lambda>a. \<exists>info \<in> set (images_info st).
                     annotation_of ma (categories st) info a) (coco_annotations st)"
proof -
  note i = load_images_init [of files ma]
  note c = load_csv_result [OF assms(1)]
  from process_images_result [OF assms(2)] obtain new where
    t: "same_tables loaded st" and
    n: "coco_annotations st = coco_annotations loaded @ new"
       "map ann_id new = [1..<1 + length new]"
       "list_all (\<lambda>a. \<exists>info \<in> set (images_info loaded).
                    annotation_of (min_area loaded) (categories loaded) info a) new"
    by blast
  have e: "coco_annotations loaded = []" "min_area loaded = ma"
    "images_info st = images_info loaded" "categories st = categories loaded"
    using i c t by (simp_all add: same_tables_def)
  have "coco_images st = map coco_of (images_info st)"
    using i c t by (simp add: same_tables_def)
  then show "map image_key (coco_images st) = map tile_key (images_info st)"
    by (simp add: image_key_def tile_key_def coco_of_def)
  show "distinct (map ii_id (images_info st))"
    using i c t by (simp add: same_tables_def)
  show "coco_categories st = map category_of (categories st)"
    using i c t by (simp add: same_tables_def)
  show "map ann_id (coco_annotations st) = [1..<1 + length (coco_annotations st)]"
    using n(1,2) e(1) by simp
  show "list_all (\<lambda>a. \<exists>info \<in> set (images_info st).
                     annotation_of ma (categories st) info a) (coco_annotations st)"
    using n(1,3) e by simp
qed

lemma create_coco_dataset_result:
  assumes "create_coco_dataset env files table convert_tiff jpg_quality (init ma) = Inr ds"
  shows "map image_key (coco_images ds) = map tile_key (images_info ds)"
    and "distinct (map ii_id (images_info ds))"
    and "coco_categories ds = map category_of (categories ds)"
    and "map ann_id (coco_annotations ds) = [1..<1 + length (coco_annotations ds)]"
    and "list_all (\<lambda>a. \<exists>info \<in> set (images_info ds).
                     annotation_of ma (categories ds) info a) (coco_annotations ds)"
proof -
  from assms obtain loaded st k where
    l: "load_csv env table (load_images files (init ma)) = Inr loaded" and
    p: "process_images env (images_info loaded) (loaded, 1) = Inr (st, k)" and
    d: "ds = (if convert_tiff then convert_all_tiff_to_jpg env jpg_quality st else st)"
    by (auto simp: create_coco_dataset_def split: sum.splits prod.splits)
  note r = assembled_result [OF l p]
  note c = convert_all_tiff_to_jpg_result [of env jpg_quality st]
  have keys: "map tile_key (images_info ds) = map tile_key (images_info st)"
    and imgs: "map image_key (coco_images ds) = map image_key (coco_images st)"
    and same: "coco_annotations ds = coco_annotations st" "coco_categories ds = coco_categories st"
      "categories ds = categories st"
    using c d by (simp_all split: if_splits)
  have ids: "map ii_id (images_info ds) = map ii_id (images_info st)"
  proof -
    have "map (fst \<circ> tile_key) (images_info ds) = map (fst \<circ> tile_key) (images_info st)"
      using keys by (simp flip: map_map)
    moreover have "fst \<circ> tile_key = ii_id"
      by (auto simp: tile_key_def)
    ultimately show ?thesis by simp
  qed
  show "map image_key (coco_images ds) = map tile_key (images_info ds)"
    using r(1) keys imgs by simp
  show "distinct (map ii_id (images_info ds))"
    using r(2) ids by simp
  show "coco_categories ds = map category_of (categories ds)"
    using r(3) same by simp
  show "map ann_id (coco_annotations ds) = [1..<1 + length (coco_annotations ds)]"
    using r(4) same by simp
  have "\<exists>j \<in> set (images_info ds). annotation_of ma (categories ds) j a"
    if "info \<in> set (images_info st)" and "annotation_of ma (categories st) info a" for info a
  proof -
    have "tile_key info \<in> set (map tile_key (images_info ds))"
      using that(1) keys by simp
    then obtain j where "j \<in> set (images_info ds)" "tile_key j = tile_key info"
      by auto
    then show ?thesis
      using that(2) annotation_of_key [of j info ma "categories st" a] same(3) by auto
  qed
  then show "list_all (\<lambda>a. \<exists>info \<in> set (images_info ds).
                     annotation_of ma (categories ds) info a) (coco_annotations ds)"
    using r(5) same(1) by (auto simp: list_all_iff)
qed

lemma create_coco_dataset_convert:
  "create_coco_dataset env files table convert_tiff jpg_quality st =
     (case create_coco_dataset env files table False jpg_quality st of
        Inl err \<Rightarrow> Inl err
      | Inr assembled \<Rightarrow>
          Inr (if convert_tiff then convert_all_tiff_to_jpg env jpg_quality assembled
               else assembled))"
  by (simp add: create_coco_dataset_def split: sum.splits prod.splits)

section \<open>The example run evaluated\<close>

lemma example_pixels:
  "project_ring example_ring
     \<lparr>tr_a = Finite 1, tr_b = Finite 0, tr_c = Finite 0, tr_d = Finite 0,
            tr_e = Finite (- 1), tr_f = Finite 640\<rparr> None =
   Inr [(10, 10), (20, 10), (20, 20), (10, 20), (10, 10)]"
  by (simp add: example_ring_def geographic_to_pixel_def py_truediv_def to_double_def float_exponent_def
        compute_bitlen pow2_def round_half_even_def Let_def)

lemma example_area: "calculate_area [(10, 10), (20, 10), (20, 20), (10, 20), (10, 10)] = Inr 100"
  by (simp add: calculate_area_def shoelace_sum_def py_nth_def Let_def upto.simps)

lemma example_bbox:
  "get_bbox_from_coords [(10, 10), (20, 10), (20, 20), (10, 20), (10, 10)] = Inr [10, 10, 10, 10]"
  by (simp add: get_bbox_from_coords_def Let_def)

lemma example_tif: "endswith (py_lower ''t.tif'') ''.tif''"
  by (simp add: endswith_def py_lower_def)

lemma example_jpg: "basename (rsplit_dot ''tiles/t.tif'' @ ''.jpg'') = ''t.jpg''"
  by (simp add: basename_def rsplit_dot_def)

lemma example_run:
  "create_coco_dataset example_env [(''tiles/t.tif'', Some example_raster)] example_table
     True 100 (init 10) = Inr example_dataset"
  by (simp add: create_coco_dataset_def load_images_def load_csv_def init_def
      example_env_def example_raster_def example_table_def example_dataset_def
      enumerate_eq_zip unique_def basename_def
      filter_valid_polygons_for_image_def setup_coordinate_transformer_def filter_row_def
      polygon_intersects_image_def polygon_to_pixel_coords_def example_pixels
      outside_image_def clip_coords_def np_clip_def example_area example_bbox
      get_segmentation_from_coords_def Let_def
      convert_all_tiff_to_jpg_def convert_tiff_to_jpg_def endswith_def py_lower_def
      rsplit_dot_def)

lemma example_load:
  "load_csv example_env example_table (init 10) =
     Inr ((init 10)\<lparr>df := [(''house'', Polygon example_ring [])], categories := [(''house'', 1)],
            coco_categories :=
              [\<lparr>cat_id = 1, cat_name = ''house'', cat_supercategory = ''building''\<rparr>]\<rparr>)"
  by (simp add: load_csv_def example_env_def example_table_def init_def Let_def unique_def
      enumerate_eq_zip)

section \<open>Claims about the assembled dataset\<close>

text \<open>
  C2: after a complete run of \<open>create_coco_dataset\<close> on a fresh object that emits
  \<open>N\<close> annotations, the annotation identifiers are \<open>1, 2, ..., N\<close> in emission
  order, without gaps or repeats.
\<close>

theorem annotation_ids_contiguous:
  assumes "create_coco_dataset env files table convert_tiff jpg_quality (init ma) = Inr ds"
  shows "map ann_id (coco_annotations ds) = [1..<Suc (length (coco_annotations ds))]"
  using create_coco_dataset_result(4) [OF assms] by simp

theorem annotation_ids_contiguous_witness:
  "create_coco_dataset example_env [(''tiles/t.tif'', Some example_raster)] example_table
     True 100 (init 10) = Inr example_dataset \<and>
   map ann_id (coco_annotations example_dataset) =
     [1..<Suc (length (coco_annotations example_dataset))]"
  by (intro conjI example_run annotation_ids_contiguous [OF example_run])

text \<open>
  C3: for every annotation of the dataset that \<open>create_coco_dataset\<close> produces, its
  \<open>image_id\<close> is the \<open>id\<close> of an entry of the images list and its \<open>category_id\<close>
  is the \<open>id\<close> of an entry of the categories list.
\<close>

theorem referential_integrity:
  assumes "create_coco_dataset env files table convert_tiff jpg_quality (init ma) = Inr ds"
    and "a \<in> set (coco_annotations ds)"
  shows "ann_image_id a \<in> img_id ` set (coco_images ds) \<and>
         ann_category_id a \<in> cat_id ` set (coco_categories ds)"
proof -
  from create_coco_dataset_result(5) [OF assms(1)] assms(2) obtain info where
    i: "info \<in> set (images_info ds)" and a: "annotation_of ma (categories ds) info a"
    by (auto simp: list_all_iff)
  from a obtain b where b: "map_of (categories ds) b = Some (ann_category_id a)"
    by (auto simp: annotation_of_def)
  have "tile_key info \<in> set (map image_key (coco_images ds))"
    using i create_coco_dataset_result(1) [OF assms(1)] by simp
  then obtain im where "im \<in> set (coco_images ds)" "image_key im = tile_key info"
    by auto
  moreover have "ii_id info = ann_image_id a"
    using a by (simp add: annotation_of_def)
  ultimately have 1: "ann_image_id a \<in> img_id ` set (coco_images ds)"
    by (force simp: image_key_def tile_key_def)
  have "(b, ann_category_id a) \<in> set (categories ds)"
    using b by (rule map_of_SomeD)
  then have "category_of (b, ann_category_id a) \<in> set (coco_categories ds)"
    using create_coco_dataset_result(3) [OF assms(1)] by simp
  moreover have "cat_id (category_of (b, ann_category_id a)) = ann_category_id a"
    by (simp add: category_of_def)
  ultimately have 2: "ann_category_id a \<in> cat_id ` set (coco_categories ds)"
    by force
  from 1 2 show ?thesis ..
qed

theorem referential_integrity_witness:
  "hd (coco_annotations example_dataset) \<in> set (coco_annotations example_dataset) \<and>
   ann_image_id (hd (coco_annotations example_dataset)) \<in>
     img_id ` set (coco_images example_dataset) \<and>
   ann_category_id (hd (coco_annotations example_dataset)) \<in>
     cat_id ` set (coco_categories example_dataset)"
proof -
  have a: "hd (coco_annotations example_dataset) \<in> set (coco_annotations example_dataset)"
    by (simp add: example_dataset_def)
  show ?thesis
    using a referential_integrity [OF example_run a] by (intro conjI) simp_all
qed

lemma calculate_area_nonempty: "calculate_area coords = Inr ar \<Longrightarrow> coords \<noteq> []"
  by (auto simp: calculate_area_def split: if_splits)

text \<open>
  C4: every emitted annotation has an area strictly greater than \<open>min_area\<close>; and a
  (tile, polygon) pair whose clipped pixel ring has an area less than or equal to
  \<open>min_area\<close> adds nothing to \<open>valid_polygons\<close>, so it yields no annotation for
  that tile.
\<close>

theorem area_threshold_enforced:
  "(create_coco_dataset env files table convert_tiff jpg_quality (init ma) = Inr ds \<longrightarrow>
      (\<forall>a \<in> set (coco_annotations ds). ma < ann_area a)) \<and>
   (polygon_to_pixel_coords polygon (ii_transform info) transformer = Inr pixel_coords \<and>
    calculate_area (clip_coords (ii_width info) (ii_height info) pixel_coords) = Inr ar \<and>
    ar \<le> ma \<longrightarrow>
      filter_row env ma info transformer (idx, building, polygon) = Inr None)"
proof (intro conjI impI)
  assume r: "create_coco_dataset env files table convert_tiff jpg_quality (init ma) = Inr ds"
  show "\<forall>a \<in> set (coco_annotations ds). ma < ann_area a"
    using create_coco_dataset_result(5) [OF r]
    by (auto simp: list_all_iff annotation_of_def)
next
  assume h: "polygon_to_pixel_coords polygon (ii_transform info) transformer = Inr pixel_coords \<and>
    calculate_area (clip_coords (ii_width info) (ii_height info) pixel_coords) = Inr ar \<and>
    ar \<le> ma"
  then have "pixel_coords \<noteq> []"
    using calculate_area_nonempty clip_coords_Nil by blast
  with h show "filter_row env ma info transformer (idx, building, polygon) = Inr None"
    by (simp add: filter_row_def Let_def)
qed

theorem area_threshold_enforced_witness:
  "10 < ann_area (hd (coco_annotations example_dataset)) \<and>
   filter_row example_env 100
     \<lparr>ii_id = 1, ii_path = ''tiles/t.tif'', ii_filename = ''t.tif'', ii_width = 640,
      ii_height = 640, ii_crs = Some (CRS (Some 4326)),
      ii_transform = \<lparr>tr_a = Finite 1, tr_b = Finite 0, tr_c = Finite 0, tr_d = Finite 0,
            tr_e = Finite (- 1), tr_f = Finite 640\<rparr>,
      ii_bounds = \<lparr>bb_left = Finite 0, bb_bottom = Finite 0, bb_right = Finite 640,
            bb_top = Finite 640\<rparr>\<rparr>
     None (0, ''house'', Polygon example_ring []) = Inr None"
proof -
  have a: "hd (coco_annotations example_dataset) \<in> set (coco_annotations example_dataset)"
    by (simp add: example_dataset_def)
  have p: "polygon_to_pixel_coords (Polygon example_ring [])
             \<lparr>tr_a = Finite 1, tr_b = Finite 0, tr_c = Finite 0, tr_d = Finite 0,
            tr_e = Finite (- 1), tr_f = Finite 640\<rparr> None =
           Inr [(10, 10), (20, 10), (20, 20), (10, 20), (10, 10)]"
    by (simp add: polygon_to_pixel_coords_def example_pixels)
  have c: "calculate_area
             (clip_coords 640 640 [(10, 10), (20, 10), (20, 20), (10, 20), (10, 10)]) = Inr 100"
    by (simp add: clip_coords_def np_clip_def example_area)
  have "10 < ann_area (hd (coco_annotations example_dataset))"
    using area_threshold_enforced
      [where env = example_env and files = "[(''tiles/t.tif'', Some example_raster)]"
         and table = example_table and convert_tiff = True and jpg_quality = 100
         and ma = 10 and ds = example_dataset
         and pixel_coords = "[]" and ar = 11 and polygon = OtherGeometry]
      example_run a
    by blast
  moreover have "filter_row example_env 100
     \<lparr>ii_id = 1, ii_path = ''tiles/t.tif'', ii_filename = ''t.tif'', ii_width = 640,
      ii_height = 640, ii_crs = Some (CRS (Some 4326)),
      ii_transform = \<lparr>tr_a = Finite 1, tr_b = Finite 0, tr_c = Finite 0, tr_d = Finite 0,
            tr_e = Finite (- 1), tr_f = Finite 640\<rparr>,
      ii_bounds = \<lparr>bb_left = Finite 0, bb_bottom = Finite 0, bb_right = Finite 640,
            bb_top = Finite 640\<rparr>\<rparr>
     None (0, ''house'', Polygon example_ring []) = Inr None"
    using area_threshold_enforced
      [where env = example_env and files = "[]" and table = example_table and ma = 100
         and ds = example_dataset and polygon = "Polygon example_ring []"
         and transformer = None and idx = 0 and building = "''house''"
         and pixel_coords = "[(10, 10), (20, 10), (20, 20), (10, 20), (10, 10)]" and ar = 100
         and info = "\<lparr>ii_id = 1, ii_path = ''tiles/t.tif'', ii_filename = ''t.tif'',
            ii_width = 640, ii_height = 640, ii_crs = Some (CRS (Some 4326)),
            ii_transform = \<lparr>tr_a = Finite 1, tr_b = Finite 0, tr_c = Finite 0, tr_d = Finite 0,
            tr_e = Finite (- 1), tr_f = Finite 640\<rparr>,
            ii_bounds = \<lparr>bb_left = Finite 0, bb_bottom = Finite 0, bb_right = Finite 640,
            bb_top = Finite 640\<rparr>\<rparr>"]
      p c
    by simp
  ultimately show ?thesis ..
qed

lemma Min_Max_in_tile:
  assumes "coords \<noteq> []" and "list_all (in_tile w h) coords"
  shows "0 \<le> Min (set (map fst coords))" "Max (set (map fst coords)) \<le> int w"
    "0 \<le> Min (set (map snd coords))" "Max (set (map snd coords)) \<le> int h"
    "Min (set (map fst coords)) \<le> Max (set (map fst coords))"
    "Min (set (map snd coords)) \<le> Max (set (map snd coords))"
  using assms by (auto simp: list_all_iff in_tile_def)

lemma bbox_in_tile:
  assumes "coords \<noteq> []" and "list_all (in_tile w h) coords"
    and "get_bbox_from_coords coords = Inr bbox"
  shows "bbox_within w h bbox"
  using Min_Max_in_tile [OF assms(1,2)] assms(1,3)
  by (auto simp: get_bbox_from_coords_def bbox_within_def Let_def)

lemma ring_in_tile:
  "list_all (in_tile w h) coords \<Longrightarrow>
     ring_within w h (concat (map (\<lambda>(c, r). [c, r]) coords))"
  by (induction coords) (auto simp: in_tile_def)

text \<open>
  C10: for every emitted annotation, the tile it refers to exists, and for that tile of
  width \<open>W\<close> and height \<open>H\<close> the bounding box \<open>[x_min, y_min, w, h]\<close> satisfies
  \<open>0 \<le> x_min\<close>, \<open>0 \<le> y_min\<close>, \<open>0 \<le> w\<close>, \<open>0 \<le> h\<close>, \<open>x_min + w \<le> W\<close>,
  \<open>y_min + h \<le> H\<close>, and every coordinate pair of the single segmentation ring lies in
  \<open>[0, W] \<times> [0, H]\<close>.
\<close>

theorem annotations_within_tile:
  assumes "create_coco_dataset env files table convert_tiff jpg_quality (init ma) = Inr ds"
    and "a \<in> set (coco_annotations ds)"
  shows "(\<exists>im \<in> set (coco_images ds). img_id im = ann_image_id a) \<and>
         (\<forall>im \<in> set (coco_images ds). img_id im = ann_image_id a \<longrightarrow>
            bbox_within (img_width im) (img_height im) (ann_bbox a) \<and>
            segmentation_within (img_width im) (img_height im) (ann_segmentation a))"
proof -
  from create_coco_dataset_result(5) [OF assms(1)] assms(2) obtain info where
    i: "info \<in> set (images_info ds)" and a: "annotation_of ma (categories ds) info a"
    by (auto simp: list_all_iff)
  note imgs = create_coco_dataset_result(1) [OF assms(1)]
  note dist = create_coco_dataset_result(2) [OF assms(1)]
  from a obtain coords where
    c: "coords \<noteq> []" "list_all (in_tile (ii_width info) (ii_height info)) coords"
       "get_bbox_from_coords coords = Inr (ann_bbox a)"
       "ann_segmentation a = get_segmentation_from_coords coords"
    and id: "ann_image_id a = ii_id info"
    by (auto simp: annotation_of_def)
  have bb: "bbox_within (ii_width info) (ii_height info) (ann_bbox a)"
    using c(1,2,3) by (rule bbox_in_tile)
  have sg: "segmentation_within (ii_width info) (ii_height info) (ann_segmentation a)"
    using ring_in_tile [OF c(2)] c(4)
    by (simp add: segmentation_within_def get_segmentation_from_coords_def)
  have "tile_key info \<in> set (map image_key (coco_images ds))"
    using i imgs by simp
  then obtain im0 where "im0 \<in> set (coco_images ds)" "image_key im0 = tile_key info"
    by auto
  then have ex: "\<exists>im \<in> set (coco_images ds). img_id im = ann_image_id a"
    using id by (auto simp: image_key_def tile_key_def)
  have all: "bbox_within (img_width im) (img_height im) (ann_bbox a) \<and>
             segmentation_within (img_width im) (img_height im) (ann_segmentation a)"
    if "im \<in> set (coco_images ds)" and "img_id im = ann_image_id a" for im
  proof -
    have "image_key im \<in> set (map tile_key (images_info ds))"
      using that(1) imgs [symmetric] by simp
    then obtain j where j: "j \<in> set (images_info ds)" "tile_key j = image_key im"
      by auto
    have "ii_id j = ii_id info"
      using that(2) j(2) id by (simp add: image_key_def tile_key_def)
    then have "j = info"
      using dist i j(1) by (meson distinct_map inj_onD)
    then show ?thesis
      using bb sg j(2) by (simp add: image_key_def tile_key_def)
  qed
  from ex all show ?thesis by blast
qed

theorem annotations_within_tile_witness:
  "hd (coco_annotations example_dataset) \<in> set (coco_annotations example_dataset) \<and>
   hd (coco_images example_dataset) \<in> set (coco_images example_dataset) \<and>
   img_id (hd (coco_images example_dataset)) =
     ann_image_id (hd (coco_annotations example_dataset)) \<and>
   bbox_within 640 640 (ann_bbox (hd (coco_annotations example_dataset))) \<and>
   segmentation_within 640 640 (ann_segmentation (hd (coco_annotations example_dataset)))"
proof -
  have a: "hd (coco_annotations example_dataset) \<in> set (coco_annotations example_dataset)"
    by (simp add: example_dataset_def)
  have i: "hd (coco_images example_dataset) \<in> set (coco_images example_dataset)"
    "img_id (hd (coco_images example_dataset)) =
       ann_image_id (hd (coco_annotations example_dataset))"
    "img_width (hd (coco_images example_dataset)) = 640"
    "img_height (hd (coco_images example_dataset)) = 640"
    by (simp_all add: example_dataset_def)
  from annotations_within_tile [OF example_run a] i(1,2)
  have "bbox_within (img_width (hd (coco_images example_dataset)))
          (img_height (hd (coco_images example_dataset)))
          (ann_bbox (hd (coco_annotations example_dataset))) \<and>
        segmentation_within (img_width (hd (coco_images example_dataset)))
          (img_height (hd (coco_images example_dataset)))
          (ann_segmentation (hd (coco_annotations example_dataset)))"
    by blast
  then show ?thesis
    using a i by (simp only: simp_thms)
qed

text \<open>
  C9: for one tile with width and height 640, \<open>a = 1\<close>, \<open>e = -1\<close>, \<open>c = 0\<close>,
  \<open>f = 640\<close>, EPSG:4326, and one table row labelled \<open>house\<close> whose geometry parses to
  the ring \<open>[(10,630),(20,630),(20,620),(10,620)]\<close> (as given, or closed by repeating
  its first vertex, as shapely holds it) and passes the coarse intersection test, the run
  with the default threshold 10 emits exactly one annotation, with bounding box
  \<open>[10,10,10,10]\<close>, area 100 and the category named \<open>house\<close>.
\<close>

theorem scenario_single_annotation:
  assumes "ext = [(Finite 10, Finite 630), (Finite 20, Finite 630), (Finite 20, Finite 620),
      (Finite 10, Finite 620)] \<or>
           ext = [(Finite 10, Finite 630), (Finite 20, Finite 630), (Finite 20, Finite 620),
      (Finite 10, Finite 620), (Finite 10, Finite 630)]"
    and "loads env wkt = Inr (Polygon ext [])"
    and "polygon_intersects_image env (Polygon ext []) bounds"
  shows "\<exists>ds a c.
           create_coco_dataset env
             [(path, Some \<lparr>src_width = 640, src_height = 640, src_crs = Some (CRS (Some 4326)),
                 src_transform = \<lparr>tr_a = Finite 1, tr_b = Finite 0, tr_c = Finite 0, tr_d = Finite 0,
            tr_e = Finite (- 1), tr_f = Finite 640\<rparr>,
                 src_bounds = bounds\<rparr>)]
             \<lparr>columns = [''building'', ''geometry''],
              rows = [\<lparr>row_building = ''house'', row_geometry = WKT wkt\<rparr>]\<rparr>
             convert_tiff jpg_quality (init 10) = Inr ds \<and>
           coco_annotations ds = [a] \<and> ann_bbox a = [10, 10, 10, 10] \<and> ann_area a = 100 \<and>
           ann_image_id a = 1 \<and> coco_categories ds = [c] \<and> cat_name c = ''house'' \<and>
           cat_id c = ann_category_id a"
proof -
  let ?files = "[(path, Some \<lparr>src_width = 640, src_height = 640,
      src_crs = Some (CRS (Some 4326)),
      src_transform = \<lparr>tr_a = Finite 1, tr_b = Finite 0, tr_c = Finite 0, tr_d = Finite 0,
            tr_e = Finite (- 1), tr_f = Finite 640\<rparr>,
      src_bounds = bounds\<rparr>)]"
  let ?table = "\<lparr>columns = [''building'', ''geometry''],
      rows = [\<lparr>row_building = ''house'', row_geometry = WKT wkt\<rparr>]\<rparr>"
  have "\<exists>st a c. create_coco_dataset env ?files ?table False jpg_quality (init 10) = Inr st \<and>
           coco_annotations st = [a] \<and> ann_bbox a = [10, 10, 10, 10] \<and> ann_area a = 100 \<and>
           ann_image_id a = 1 \<and> coco_categories st = [c] \<and> cat_name c = ''house'' \<and>
           cat_id c = ann_category_id a"
    using assms(1)
  proof
    assume e: "ext = [(Finite 10, Finite 630), (Finite 20, Finite 630), (Finite 20, Finite 620),
      (Finite 10, Finite 620)]"
    have p: "project_ring ext \<lparr>tr_a = Finite 1, tr_b = Finite 0, tr_c = Finite 0, tr_d = Finite 0,
            tr_e = Finite (- 1), tr_f = Finite 640\<rparr> None =
               Inr [(10, 10), (20, 10), (20, 20), (10, 20)]"
      by (simp add: e geographic_to_pixel_def py_truediv_def to_double_def float_exponent_def
        compute_bitlen pow2_def round_half_even_def Let_def)
    have a: "calculate_area [(10, 10), (20, 10), (20, 20), (10, 20)] = Inr 100"
      by (simp add: calculate_area_def shoelace_sum_def py_nth_def Let_def upto.simps)
    have b: "get_bbox_from_coords [(10, 10), (20, 10), (20, 20), (10, 20)] = Inr [10, 10, 10, 10]"
      by (simp add: get_bbox_from_coords_def Let_def)
    show ?thesis
      using assms(2,3)
      by (simp add: create_coco_dataset_def load_images_def load_csv_def init_def
          enumerate_eq_zip unique_def
          filter_valid_polygons_for_image_def setup_coordinate_transformer_def filter_row_def
          polygon_to_pixel_coords_def p
          outside_image_def clip_coords_def np_clip_def a b Let_def)
  next
    assume e: "ext = [(Finite 10, Finite 630), (Finite 20, Finite 630), (Finite 20, Finite 620),
      (Finite 10, Finite 620), (Finite 10, Finite 630)]"
    have p: "project_ring ext \<lparr>tr_a = Finite 1, tr_b = Finite 0, tr_c = Finite 0, tr_d = Finite 0,
            tr_e = Finite (- 1), tr_f = Finite 640\<rparr> None =
               Inr [(10, 10), (20, 10), (20, 20), (10, 20), (10, 10)]"
      by (simp add: e geographic_to_pixel_def py_truediv_def to_double_def float_exponent_def
        compute_bitlen pow2_def round_half_even_def Let_def)
    show ?thesis
      using assms(2,3)
      by (simp add: create_coco_dataset_def load_images_def load_csv_def init_def
          enumerate_eq_zip unique_def
          filter_valid_polygons_for_image_def setup_coordinate_transformer_def filter_row_def
          polygon_to_pixel_coords_def p
          outside_image_def clip_coords_def np_clip_def example_area example_bbox Let_def)
  qed
  then obtain st a c where
    r: "create_coco_dataset env ?files ?table False jpg_quality (init 10) = Inr st" and
    s: "coco_annotations st = [a]" "ann_bbox a = [10, 10, 10, 10]" "ann_area a = 100"
       "ann_image_id a = 1" "coco_categories st = [c]" "cat_name c = ''house''"
       "cat_id c = ann_category_id a"
    by blast
  let ?ds = "if convert_tiff then convert_all_tiff_to_jpg env jpg_quality st else st"
  have "create_coco_dataset env ?files ?table convert_tiff jpg_quality (init 10) = Inr ?ds"
    using r create_coco_dataset_convert [of env ?files ?table convert_tiff jpg_quality "init 10"]
    by simp
  moreover have "coco_annotations ?ds = [a]" "coco_categories ?ds = [c]"
    using s(1,5) convert_all_tiff_to_jpg_result [of env jpg_quality st] by simp_all
  ultimately show ?thesis
    using s(2,3,4,6,7) by blast
qed

theorem scenario_single_annotation_witness:
  "\<exists>ds a c.
     create_coco_dataset example_env
       [(''tiles/t.tif'', Some \<lparr>src_width = 640, src_height = 640, src_crs = Some (CRS (Some 4326)),
           src_transform = \<lparr>tr_a = Finite 1, tr_b = Finite 0, tr_c = Finite 0, tr_d = Finite 0,
            tr_e = Finite (- 1), tr_f = Finite 640\<rparr>,
           src_bounds = \<lparr>bb_left = Finite 0, bb_bottom = Finite 0, bb_right = Finite 640,
            bb_top = Finite 640\<rparr>\<rparr>)]
       \<lparr>columns = [''building'', ''geometry''],
        rows = [\<lparr>row_building = ''house'',
                 row_geometry = WKT ''POLYGON ((10 630, 20 630, 20 620, 10 620, 10 630))''\<rparr>]\<rparr>
       True 100 (init 10) = Inr ds \<and>
     coco_annotations ds = [a] \<and> ann_bbox a = [10, 10, 10, 10] \<and> ann_area a = 100 \<and>
     ann_image_id a = 1 \<and> coco_categories ds = [c] \<and> cat_name c = ''house'' \<and>
     cat_id c = ann_category_id a"
  using scenario_single_annotation
    [where ext = example_ring and env = example_env
       and wkt = "''POLYGON ((10 630, 20 630, 20 620, 10 620, 10 630))''"
       and bounds = "\<lparr>bb_left = Finite 0, bb_bottom = Finite 0, bb_right = Finite 640,
            bb_top = Finite 640\<rparr>"
       and path = "''tiles/t.tif''" and convert_tiff = True and jpg_quality = 100]
  by (simp add: example_ring_def example_env_def polygon_intersects_image_def)

section \<open>Claims about clipping\<close>











section \<open>Claims about loading the polygon table\<close>

text \<open>
  C6, as stated: a source polygon with interior rings aborts the run with an error.
  This fails: for the scenario polygon with the hole \<open>(12,628), (18,628), (18,622),
  (12,622)\<close> the run ends without an error and emits the annotation of the polygon
  without the hole, with area 100.
\<close>

theorem holes_dropped_counterexample:
  "create_coco_dataset
     \<lparr>loads = (\<lambda>wkt. Inr (Polygon example_ring [example_hole])),
      intersects = (\<lambda>g shell. True), from_crs = (\<lambda>k p. p),
      save_as_jpeg = (\<lambda>tiff_path jpg_path quality. True)\<rparr>
     [(''tiles/t.tif'', Some example_raster)] example_table True 100 (init 10) =
   Inr (example_dataset\<lparr>df := [(''house'', Polygon example_ring [example_hole])]\<rparr>)"
  by (simp add: create_coco_dataset_def load_images_def load_csv_def init_def
      example_raster_def example_table_def example_dataset_def
      enumerate_eq_zip unique_def basename_def
      filter_valid_polygons_for_image_def setup_coordinate_transformer_def filter_row_def
      polygon_intersects_image_def polygon_to_pixel_coords_def example_pixels
      outside_image_def clip_coords_def np_clip_def example_area example_bbox
      get_segmentation_from_coords_def Let_def
      convert_all_tiff_to_jpg_def convert_tiff_to_jpg_def endswith_def py_lower_def
      rsplit_dot_def)

text \<open>
  C6, amended: a source polygon with interior rings raises no error; only its exterior
  ring is projected, so when the coarse intersection test answers alike, the spatial
  filter gives for it what it gives for the same polygon without the holes. A
  multi-polygon is dropped by the validity mask at load time, also without an error.
\<close>

theorem interior_rings_ignored:
  "polygon_to_pixel_coords (Polygon ext holes) transform transformer =
     polygon_to_pixel_coords (Polygon ext []) transform transformer \<and>
   (polygon_intersects_image env (Polygon ext holes) (ii_bounds info) =
    polygon_intersects_image env (Polygon ext []) (ii_bounds info) \<longrightarrow>
      filter_row env ma info transformer (idx, building, Polygon ext holes) =
      filter_row env ma info transformer (idx, building, Polygon ext [])) \<and>
   \<not> valid_mask (Some (MultiPolygon parts))"
  by (simp add: polygon_to_pixel_coords_def filter_row_def)

theorem interior_rings_ignored_witness:
  "filter_row example_env 10
     \<lparr>ii_id = 1, ii_path = ''tiles/t.tif'', ii_filename = ''t.tif'', ii_width = 640,
      ii_height = 640, ii_crs = Some (CRS (Some 4326)),
      ii_transform = \<lparr>tr_a = Finite 1, tr_b = Finite 0, tr_c = Finite 0, tr_d = Finite 0,
            tr_e = Finite (- 1), tr_f = Finite 640\<rparr>,
      ii_bounds = \<lparr>bb_left = Finite 0, bb_bottom = Finite 0, bb_right = Finite 640,
            bb_top = Finite 640\<rparr>\<rparr>
     None (0, ''house'', Polygon example_ring [example_hole]) =
   Inr (Some \<lparr>vp_building = ''house'',
              vp_coords = [(10, 10), (20, 10), (20, 20), (10, 20), (10, 10)],
              vp_original_idx = 0\<rparr>)"
  using interior_rings_ignored
    [where env = example_env and ext = example_ring and holes = "[example_hole]"
       and ma = 10 and transformer = None and idx = 0 and building = "''house''"
       and info = "\<lparr>ii_id = 1, ii_path = ''tiles/t.tif'', ii_filename = ''t.tif'', ii_width = 640,
          ii_height = 640, ii_crs = Some (CRS (Some 4326)),
          ii_transform = \<lparr>tr_a = Finite 1, tr_b = Finite 0, tr_c = Finite 0, tr_d = Finite 0,
            tr_e = Finite (- 1), tr_f = Finite 640\<rparr>,
          ii_bounds = \<lparr>bb_left = Finite 0, bb_bottom = Finite 0, bb_right = Finite 640,
            bb_top = Finite 640\<rparr>\<rparr>"]
  by (simp add: example_env_def polygon_intersects_image_def filter_row_def
      polygon_to_pixel_coords_def example_pixels outside_image_def clip_coords_def np_clip_def
      example_area)

text \<open>
  C7: a row whose geometry string cannot be parsed should be skipped and the run
  continued. On a table with a good row followed by a row with a truncated string, the
  exception of \<open>loads\<close> leaves \<open>load_csv\<close> and the run ends with that error.
\<close>

theorem unparsable_geometry_aborts:
  "create_coco_dataset example_env [(''tiles/t.tif'', Some example_raster)]
     \<lparr>columns = [''building'', ''geometry''],
      rows = [\<lparr>row_building = ''house'',
               row_geometry = WKT ''POLYGON ((10 630, 20 630, 20 620, 10 620, 10 630))''\<rparr>,
              \<lparr>row_building = ''shed'', row_geometry = WKT ''POLYGON ((10 630, 20''\<rparr>]\<rparr>
     True 100 (init 10) = Inl WKTReadingError"
  by (simp add: create_coco_dataset_def load_csv_def example_env_def)

text \<open>
  C8, as stated: every retained polygon has a ring of at least 3 vertices. This fails:
  the validity mask tests only for the attribute \<open>exterior\<close>, so the geometry of
  \<open>POLYGON EMPTY\<close>, a polygon whose exterior has no vertex, is retained.
\<close>

theorem empty_polygon_retained_counterexample:
  "map_sum id df
     (load_csv
        \<lparr>loads = (\<lambda>wkt. if wkt = ''POLYGON EMPTY'' then Inr (Polygon [] [])
                        else Inl WKTReadingError),
         intersects = (\<lambda>g shell. False), from_crs = (\<lambda>k p. p),
         save_as_jpeg = (\<lambda>tiff_path jpg_path quality. True)\<rparr>
        \<lparr>columns = [''building'', ''geometry''],
         rows = [\<lparr>row_building = ''house'', row_geometry = WKT ''POLYGON EMPTY''\<rparr>]\<rparr>
        (init 10)) = Inr [(''house'', Polygon [] [])]
   \<and> length (exterior (Polygon [] [])) < 3"
  by (simp add: load_csv_def Let_def)

lemma apply_loads_rows:
  "apply_loads env rs = Inr parsed \<Longrightarrow> (b, Some g) \<in> set parsed \<Longrightarrow>
     \<exists>r \<in> set rs. row_building r = b \<and> (\<exists>wkt. row_geometry r = WKT wkt \<and> loads env wkt = Inr g)"
proof (induction rs arbitrary: parsed)
  case Nil
  then show ?case by simp
next
  case (Cons r rs)
  then show ?case
    by (auto split: sum.splits cell.splits)
qed

text \<open>
  C8, amended: at load time every missing geometry and every geometry without an
  exterior ring is excluded: each retained row holds a single polygon, parsed from a
  string cell of the table with the row's label. The number of its vertices is not
  tested.
\<close>

theorem load_csv_retains_polygons:
  assumes "load_csv env table st = Inr st'" and "(b, g) \<in> set (df st')"
  shows "(\<exists>ext holes. g = Polygon ext holes) \<and>
         (\<exists>r \<in> set (rows table). row_building r = b \<and> row_geometry r \<noteq> NaN \<and>
            (\<exists>wkt. row_geometry r = WKT wkt \<and> loads env wkt = Inr g))"
proof -
  from assms(1) obtain parsed where
    p: "apply_loads env (rows table) = Inr parsed" and
    d: "df st' = map (\<lambda>(b, v). (b, the v)) (filter (\<lambda>(b, v). valid_mask v) parsed)"
    by (auto simp: load_csv_def Let_def split: if_splits sum.splits)
  from assms(2) d obtain v where v: "(b, v) \<in> set parsed" "valid_mask v" "g = the v"
    by auto
  from v(2) obtain ext holes where e: "v = Some (Polygon ext holes)"
    by (cases v rule: valid_mask.cases) simp_all
  then have g: "g = Polygon ext holes" using v(3) by simp
  from apply_loads_rows [OF p] v(1) e g
  have "\<exists>r \<in> set (rows table). row_building r = b \<and>
          (\<exists>wkt. row_geometry r = WKT wkt \<and> loads env wkt = Inr g)"
    by simp
  then show ?thesis using g by auto
qed

theorem load_csv_retains_polygons_witness:
  "(\<exists>ext holes. Polygon example_ring [] = Polygon ext holes) \<and>
   (\<exists>r \<in> set (rows example_table). row_building r = ''house'' \<and> row_geometry r \<noteq> NaN \<and>
      (\<exists>wkt. row_geometry r = WKT wkt \<and> loads example_env wkt = Inr (Polygon example_ring [])))"
  using load_csv_retains_polygons [OF example_load, of "''house''" "Polygon example_ring []"]
  by simp

end
